theory Spec2Isabelle
  imports Complex_Main
begin

section \<open>JavaScript values\<close>

text \<open>
  The cart code of \<^verbatim>\<open>assets/add-to-cart.js\<close> works on whatever the storefront endpoints
  send back, so payloads are modelled as untyped JSON-like values. Numbers are exact
  rationals together with the three non-finite values of the language; the rounding of
  IEEE doubles is not modelled. For a whole amount of minor units of magnitude below
  \<open>100 * 2^46\<close> the quotient by 100 computed in doubles lies within 0.005 of the exact
  one, so \<^verbatim>\<open>toFixed(2)\<close> renders both alike.
\<close>

datatype jsnum = Fin rat | NaN | PInf | NInf

datatype jsval =
    JUndefined
  | JNull
  | JBool bool
  | JNum jsnum
  | JStr string
  | JArr "jsval list"
  | JObj "(string \<times> jsval) list"

text \<open>Thrown values. Every value the cart code throws or receives from the runtime is
  an \<^verbatim>\<open>Error\<close> object of some class; each carries its \<^verbatim>\<open>message\<close>.\<close>

datatype js_error = Error string | TypeError string | SyntaxError string

fun message :: "js_error \<Rightarrow> string" where
  "message (Error m) = m"
| "message (TypeError m) = m"
| "message (SyntaxError m) = m"

text \<open>
  The page and the engine around the code: \<^verbatim>\<open>window.Shopify.formatMoney\<close> when the
  platform defines it (it may throw), and the engine's conversions that the source
  relies on but does not define (number to string, string to number,
  \<^verbatim>\<open>parseInt(s, 10)\<close>).
\<close>

record host =
  Shopify_formatMoney :: "(jsval \<Rightarrow> js_error + string) option"
  NumberToString :: "rat \<Rightarrow> string"
  StringToNumber :: "string \<Rightarrow> jsnum"
  parseInt10 :: "string \<Rightarrow> jsnum"

fun truthy :: "jsval \<Rightarrow> bool" where
  "truthy JUndefined = False"
| "truthy JNull = False"
| "truthy (JBool b) = b"
| "truthy (JNum (Fin r)) = (r \<noteq> 0)"
| "truthy (JNum NaN) = False"
| "truthy (JNum PInf) = True"
| "truthy (JNum NInf) = True"
| "truthy (JStr s) = (s \<noteq> [])"
| "truthy (JArr xs) = True"
| "truthy (JObj kvs) = True"

text \<open>\<^verbatim>\<open>a || b\<close>\<close>

definition js_or :: "jsval \<Rightarrow> jsval \<Rightarrow> jsval" where
  "js_or a b = (if truthy a then a else b)"

definition nullish :: "jsval \<Rightarrow> bool" where
  "nullish v = (v = JUndefined \<or> v = JNull)"

text \<open>
  \<^verbatim>\<open>v.name\<close> for a value that is neither \<^verbatim>\<open>null\<close> nor \<^verbatim>\<open>undefined\<close>, for the property
  names this program reads (\<^verbatim>\<open>items\<close>, \<^verbatim>\<open>item_count\<close>, \<^verbatim>\<open>total_price\<close>, \<^verbatim>\<open>key\<close>,
  \<^verbatim>\<open>quantity\<close>, \<^verbatim>\<open>description\<close>, \<^verbatim>\<open>message\<close>): an object yields its own property,
  anything else \<^verbatim>\<open>undefined\<close>. On \<^verbatim>\<open>null\<close> and \<^verbatim>\<open>undefined\<close> the read throws the
  TypeError \<open>read_error\<close> (worded as V8 words it).
\<close>

fun field :: "jsval \<Rightarrow> string \<Rightarrow> jsval" where
  "field (JObj kvs) name = (case map_of kvs name of Some v \<Rightarrow> v | None \<Rightarrow> JUndefined)"
| "field v name = JUndefined"

definition read_error :: "jsval \<Rightarrow> string \<Rightarrow> js_error" where
  "read_error v name =
     TypeError (''Cannot read properties of '' @ (if v = JNull then ''null'' else ''undefined'')
                @ '' (reading '' @ [CHR 0x27] @ name @ [CHR 0x27] @ '')'')"

text \<open>
  The conversions to string and to number, which throw on some values (\<open>Inl\<close>). The
  values here come out of \<^verbatim>\<open>JSON.parse\<close>, so no property is a function. An object is
  converted through \<^verbatim>\<open>Object.prototype.toString\<close> and prints as \<^verbatim>\<open>[object Object]\<close>,
  unless it has a property of its own named \<^verbatim>\<open>toString\<close>: that one is not callable,
  and the conversion throws a TypeError (worded as V8 words it). An array is converted
  by joining its elements with commas, \<^verbatim>\<open>null\<close> and \<^verbatim>\<open>undefined\<close> elements as the empty
  string, every other element by its own conversion, which may throw.
\<close>

fun ToString :: "host \<Rightarrow> jsval \<Rightarrow> js_error + string"
  and join_comma :: "host \<Rightarrow> jsval list \<Rightarrow> js_error + string" where
  "ToString h JUndefined = Inr ''undefined''"
| "ToString h JNull = Inr ''null''"
| "ToString h (JBool b) = Inr (if b then ''true'' else ''false'')"
| "ToString h (JNum (Fin r)) = Inr (NumberToString h r)"
| "ToString h (JNum NaN) = Inr ''NaN''"
| "ToString h (JNum PInf) = Inr ''Infinity''"
| "ToString h (JNum NInf) = Inr ''-Infinity''"
| "ToString h (JStr s) = Inr s"
| "ToString h (JArr xs) = join_comma h xs"
| "ToString h (JObj kvs) =
     (if map_of kvs ''toString'' = None then Inr ''[object Object]''
      else Inl (TypeError ''Cannot convert object to primitive value''))"
| "join_comma h [] = Inr []"
| "join_comma h (x # xs) =
     (case (if nullish x then Inr [] else ToString h x) of
        Inl e \<Rightarrow> Inl e
      | Inr s \<Rightarrow>
          if xs = [] then Inr s
          else (case join_comma h xs of
                  Inl e \<Rightarrow> Inl e
                | Inr t \<Rightarrow> Inr (s @ '','' @ t)))"

fun ToNumber :: "host \<Rightarrow> jsval \<Rightarrow> js_error + jsnum" where
  "ToNumber h JUndefined = Inr NaN"
| "ToNumber h JNull = Inr (Fin 0)"
| "ToNumber h (JBool b) = Inr (Fin (if b then 1 else 0))"
| "ToNumber h (JNum x) = Inr x"
| "ToNumber h (JStr s) = Inr (StringToNumber h s)"
| "ToNumber h (JArr xs) =
     (case ToString h (JArr xs) of Inl e \<Rightarrow> Inl e | Inr s \<Rightarrow> Inr (StringToNumber h s))"
| "ToNumber h (JObj kvs) =
     (case ToString h (JObj kvs) of Inl e \<Rightarrow> Inl e | Inr s \<Rightarrow> Inr (StringToNumber h s))"

text \<open>\<^verbatim>\<open>x / 100\<close>, \<^verbatim>\<open>x + 1\<close>, \<^verbatim>\<open>x - 1\<close> and \<^verbatim>\<open>x > 1\<close> on numbers.\<close>

fun div_100 :: "jsnum \<Rightarrow> jsnum" where
  "div_100 (Fin r) = Fin (r / 100)"
| "div_100 x = x"

fun num_plus_1 :: "jsnum \<Rightarrow> jsnum" where
  "num_plus_1 (Fin r) = Fin (r + 1)"
| "num_plus_1 x = x"

fun num_minus_1 :: "jsnum \<Rightarrow> jsnum" where
  "num_minus_1 (Fin r) = Fin (r - 1)"
| "num_minus_1 x = x"

fun num_gt_1 :: "jsnum \<Rightarrow> bool" where
  "num_gt_1 (Fin r) = (r > 1)"
| "num_gt_1 PInf = True"
| "num_gt_1 x = False"

text \<open>\<^verbatim>\<open>v + 1\<close>: a string (or an object, whose primitive is its string) concatenates,
  anything else adds as a number. \<^verbatim>\<open>v - 1\<close> and \<^verbatim>\<open>v > 1\<close> convert \<open>v\<close> to a number.
  Each throws when the conversion of \<open>v\<close> does.\<close>

fun js_plus_1 :: "host \<Rightarrow> jsval \<Rightarrow> js_error + jsval" where
  "js_plus_1 h (JStr s) = Inr (JStr (s @ ''1''))"
| "js_plus_1 h (JArr xs) =
     (case ToString h (JArr xs) of Inl e \<Rightarrow> Inl e | Inr s \<Rightarrow> Inr (JStr (s @ ''1'')))"
| "js_plus_1 h (JObj kvs) =
     (case ToString h (JObj kvs) of Inl e \<Rightarrow> Inl e | Inr s \<Rightarrow> Inr (JStr (s @ ''1'')))"
| "js_plus_1 h v =
     (case ToNumber h v of Inl e \<Rightarrow> Inl e | Inr x \<Rightarrow> Inr (JNum (num_plus_1 x)))"

definition js_minus_1 :: "host \<Rightarrow> jsval \<Rightarrow> js_error + jsval" where
  "js_minus_1 h v =
     (case ToNumber h v of Inl e \<Rightarrow> Inl e | Inr x \<Rightarrow> Inr (JNum (num_minus_1 x)))"

definition js_gt_1 :: "host \<Rightarrow> jsval \<Rightarrow> js_error + bool" where
  "js_gt_1 h v = (case ToNumber h v of Inl e \<Rightarrow> Inl e | Inr x \<Rightarrow> Inr (num_gt_1 x))"

subsection \<open>Number.prototype.toFixed\<close>

definition digit_char :: "nat \<Rightarrow> char" where
  "digit_char d = ''0123456789'' ! d"

fun digits :: "nat \<Rightarrow> string" where
  "digits n = (if n < 10 then [digit_char n] else digits (n div 10) @ [digit_char (n mod 10)])"

declare digits.simps [simp del]

text \<open>
  \<^verbatim>\<open>x.toFixed(f)\<close> as ECMAScript defines it: a non-finite number prints its name; a
  magnitude of \<open>10^21\<close> or more prints as the engine's plain number string; otherwise
  \<open>n\<close> is the integer nearest to \<open>x * 10^f\<close> (the larger one of two), printed with
  at least \<open>f + 1\<close> digits and a point before the last \<open>f\<close>.
\<close>

definition toFixed :: "host \<Rightarrow> jsnum \<Rightarrow> nat \<Rightarrow> string" where
  "toFixed h x f =
     (case x of
        NaN \<Rightarrow> ''NaN''
      | PInf \<Rightarrow> ''Infinity''
      | NInf \<Rightarrow> ''-Infinity''
      | Fin r \<Rightarrow>
          (let s = (if r < 0 then ''-'' else '''');
               a = \<bar>r\<bar>
           in if a \<ge> 10 ^ 21 then s @ NumberToString h a
              else
                (let n = nat \<lfloor>a * 10 ^ f + 1 / 2\<rfloor>;
                     m = digits n;
                     m' = (if f \<noteq> 0 \<and> length m \<le> f
                           then replicate (f + 1 - length m) (CHR ''0'') @ m else m)
                 in s @ (if f = 0 then m'
                         else take (length m' - f) m' @ ''.'' @ drop (length m' - f) m'))))"

section \<open>CartStore\<close>

text \<open>
  The store object of \<^verbatim>\<open>CartStore\<close>. \<^verbatim>\<open>items\<close> is only ever assigned an array;
  \<^verbatim>\<open>item_count\<close> and \<^verbatim>\<open>total_price\<close> hold whatever truthy value the payload carried,
  or the number 0; \<^verbatim>\<open>error\<close> is \<^verbatim>\<open>null\<close> (\<open>None\<close>) or a message.
\<close>

record store =
  items :: "jsval list"
  item_count :: jsval
  total_price :: jsval
  formatted_total :: string
  loading :: bool
  error :: "string option"

text \<open>The store as the constructor builds it.\<close>

definition initial_store :: store where
  "initial_store =
     \<lparr>items = [], item_count = JNum (Fin 0), total_price = JNum (Fin 0),
      formatted_total = ''$0.00'', loading = False, error = None\<rparr>"

text \<open>\<^verbatim>\<open>formatMoney(cents)\<close>. The fallback's \<^verbatim>\<open>cents / 100\<close> converts \<open>cents\<close> to a
  number and throws when that conversion does.\<close>

definition formatMoney :: "host \<Rightarrow> jsval \<Rightarrow> js_error + string" where
  "formatMoney h cents =
     (case Shopify_formatMoney h of
        Some f \<Rightarrow> f cents
      | None \<Rightarrow>
          (case ToNumber h cents of
             Inl e \<Rightarrow> Inl e
           | Inr x \<Rightarrow> Inr (''$'' @ toFixed h (div_100 x) 2)))"

text \<open>
  \<^verbatim>\<open>updateCart(cartData)\<close>: the exception it ends with, if any, and the store at that
  point. Its first property read, \<^verbatim>\<open>cartData.items\<close> in the logging lines, throws on
  \<^verbatim>\<open>null\<close> and \<^verbatim>\<open>undefined\<close> before any field is assigned. \<^verbatim>\<open>items\<close>, \<^verbatim>\<open>item_count\<close>
  and \<^verbatim>\<open>total_price\<close> are assigned before \<^verbatim>\<open>formatMoney\<close> is called; when that throws,
  \<^verbatim>\<open>formatted_total\<close> and \<^verbatim>\<open>error\<close> keep what they held.
\<close>

definition updateCart :: "host \<Rightarrow> jsval \<Rightarrow> store \<Rightarrow> js_error option \<times> store" where
  "updateCart h cartData this =
     (if nullish cartData then (Some (read_error cartData ''items''), this)
      else
        (let items' = (case field cartData ''items'' of JArr xs \<Rightarrow> xs | _ \<Rightarrow> []);
             this1 = this\<lparr>items := items',
                          item_count := js_or (field cartData ''item_count'') (JNum (Fin 0)),
                          total_price := js_or (field cartData ''total_price'') (JNum (Fin 0))\<rparr>
         in case formatMoney h (js_or (field cartData ''total_price'') (JNum (Fin 0))) of
              Inl e \<Rightarrow> (Some e, this1)
            | Inr shown \<Rightarrow> (None, this1\<lparr>formatted_total := shown, error := None\<rparr>)))"

text \<open>\<^verbatim>\<open>getItem(key)\<close>: \<^verbatim>\<open>this.items.find(item => item.key === key) || null\<close>. The
  callback reads \<^verbatim>\<open>item.key\<close>, which throws on a \<^verbatim>\<open>null\<close> or \<^verbatim>\<open>undefined\<close> element.\<close>

fun find_key :: "string \<Rightarrow> jsval list \<Rightarrow> js_error + jsval" where
  "find_key key [] = Inr JUndefined"
| "find_key key (item # rest) =
     (if nullish item then Inl (read_error item ''key'')
      else if field item ''key'' = JStr key then Inr item
      else find_key key rest)"

definition getItem :: "string \<Rightarrow> store \<Rightarrow> js_error + jsval" where
  "getItem key this =
     (case find_key key (items this) of
        Inl e \<Rightarrow> Inl e
      | Inr found \<Rightarrow> Inr (js_or found JNull))"

definition setLoading :: "bool \<Rightarrow> store \<Rightarrow> store" where
  "setLoading isLoading this = this\<lparr>loading := isLoading\<rparr>"

definition setError :: "string option \<Rightarrow> store \<Rightarrow> store" where
  "setError errorMessage this = this\<lparr>error := errorMessage\<rparr>"

section \<open>CartAPI\<close>

text \<open>
  The network as the gateway sees it. A request carries the value handed to
  \<^verbatim>\<open>JSON.stringify\<close> as its body. A response is what the code can observe of it: the
  \<^verbatim>\<open>ok\<close> flag, the status, and what \<^verbatim>\<open>await response.json()\<close> and
  \<^verbatim>\<open>await response.text()\<close> settle with where the source calls them (\<open>Inl\<close> is a
  rejection). The source calls \<^verbatim>\<open>text()\<close> only after \<^verbatim>\<open>json()\<close> has failed on the same
  response. In a browser that second read of a body already consumed rejects with a
  TypeError; the model takes the outcome from the response and does not fix it. \<^verbatim>\<open>fetch\<close> itself resolves with a response or rejects (a network
  failure).
  The server is a transition function on a state of its own; \<open>sent\<close> records the
  requests in the order they were issued.
\<close>

datatype http_method = GET | POST

record request =
  url :: string
  http_method :: http_method
  headers :: "(string \<times> string) list"
  body :: "jsval option"

record response =
  ok :: bool
  status :: nat
  json :: "js_error + jsval"
  text_body :: "js_error + string"

datatype fetch_outcome = Rejected js_error | Resolved response

type_synonym 's server = "request \<Rightarrow> 's \<Rightarrow> fetch_outcome \<times> 's"

record 's net =
  server_state :: 's
  sent :: "request list"

definition fetch :: "'s server \<Rightarrow> request \<Rightarrow> 's net \<Rightarrow> fetch_outcome \<times> 's net" where
  "fetch srv rq n =
     (case srv rq (server_state n) of
        (outcome, s') \<Rightarrow> (outcome, \<lparr>server_state = s', sent = sent n @ [rq]\<rparr>))"

definition post_json :: "string \<Rightarrow> jsval \<Rightarrow> request" where
  "post_json path payload =
     \<lparr>url = ''/cart'' @ path, http_method = POST,
      headers = [(''Content-Type'', ''application/json'')], body = Some payload\<rparr>"

definition get_cart_js :: request where
  "get_cart_js =
     \<lparr>url = ''/cart'' @ ''.js'', http_method = GET,
      headers = [(''Content-Type'', ''application/json'')], body = None\<rparr>"

definition getCart :: "'s server \<Rightarrow> 's net \<Rightarrow> (js_error + jsval) \<times> 's net" where
  "getCart srv n =
     (case fetch srv get_cart_js n of
        (Rejected e, n') \<Rightarrow> (Inl e, n')
      | (Resolved r, n') \<Rightarrow>
          if \<not> ok r then (Inl (Error ''Failed to fetch cart''), n')
          else (json r, n'))"

text \<open>
  The error \<^verbatim>\<open>addItem\<close> throws on a response that is not ok. The inner \<^verbatim>\<open>try\<close> reads
  the JSON body and takes \<^verbatim>\<open>error.description || error.message || errorMessage\<close>; when
  that throws (the body does not parse, or it is \<^verbatim>\<open>null\<close>), the \<^verbatim>\<open>catch\<close> awaits
  \<^verbatim>\<open>response.text()\<close>, whose rejection leaves the function as it is, and takes
  \<^verbatim>\<open>text || errorMessage\<close>. \<^verbatim>\<open>new Error(m)\<close> converts \<open>m\<close> to a string and throws
  what that conversion throws.
\<close>

definition addItem_error :: "host \<Rightarrow> response \<Rightarrow> js_error" where
  "addItem_error h r =
     (let errorMessage = ''Failed to add item to cart'';
          tried =
            (case json r of
               Inl e \<Rightarrow> Inl e
             | Inr err \<Rightarrow>
                 if nullish err then Inl (read_error err ''description'')
                 else Inr (js_or (field err ''description'')
                            (js_or (field err ''message'') (JStr errorMessage))))
      in case tried of
           Inr m \<Rightarrow> (case ToString h m of Inl e \<Rightarrow> e | Inr msg \<Rightarrow> Error msg)
         | Inl e \<Rightarrow>
             (case text_body r of
                Inl e' \<Rightarrow> e'
              | Inr t \<Rightarrow> Error (if t \<noteq> [] then t else errorMessage)))"

definition addItem ::
    "host \<Rightarrow> 's server \<Rightarrow> jsval \<Rightarrow> 's net \<Rightarrow> (js_error + jsval) \<times> 's net" where
  "addItem h srv item n =
     (case fetch srv (post_json ''/add.js'' item) n of
        (Rejected e, n') \<Rightarrow> (Inl e, n')
      | (Resolved r, n') \<Rightarrow>
          if \<not> ok r then (Inl (addItem_error h r), n')
          else
            (case json r of
               Inl e \<Rightarrow> (Inl e, n')
             | Inr result \<Rightarrow> getCart srv n'))"

text \<open>
  What \<^verbatim>\<open>addItems\<close>, \<^verbatim>\<open>updateItem\<close> and \<^verbatim>\<open>removeItem\<close> throw on a response that is
  not ok: \<^verbatim>\<open>const error = await response.json(); throw new Error(error.description || fallback)\<close>.
  A body that does not parse makes \<^verbatim>\<open>response.json()\<close> reject, and that rejection is
  what leaves the function.
\<close>

definition description_error :: "host \<Rightarrow> response \<Rightarrow> string \<Rightarrow> js_error" where
  "description_error h r fallback =
     (case json r of
        Inl e \<Rightarrow> e
      | Inr err \<Rightarrow>
          if nullish err then read_error err ''description''
          else (case ToString h (js_or (field err ''description'') (JStr fallback)) of
                  Inl e \<Rightarrow> e
                | Inr msg \<Rightarrow> Error msg))"

definition addItems ::
    "host \<Rightarrow> 's server \<Rightarrow> jsval list \<Rightarrow> 's net \<Rightarrow> (js_error + jsval) \<times> 's net" where
  "addItems h srv its n =
     (case fetch srv (post_json ''/add.js'' (JObj [(''items'', JArr its)])) n of
        (Rejected e, n') \<Rightarrow> (Inl e, n')
      | (Resolved r, n') \<Rightarrow>
          if \<not> ok r then (Inl (description_error h r ''Failed to add items to cart''), n')
          else
            (case json r of
               Inl e \<Rightarrow> (Inl e, n')
             | Inr result \<Rightarrow> getCart srv n'))"

definition updateItem ::
    "host \<Rightarrow> 's server \<Rightarrow> string \<Rightarrow> jsval \<Rightarrow> 's net \<Rightarrow> (js_error + jsval) \<times> 's net" where
  "updateItem h srv key quantity n =
     (case fetch srv (post_json ''/change.js'' (JObj [(''id'', JStr key), (''quantity'', quantity)])) n of
        (Rejected e, n') \<Rightarrow> (Inl e, n')
      | (Resolved r, n') \<Rightarrow>
          if \<not> ok r then (Inl (description_error h r ''Failed to update item''), n')
          else (json r, n'))"

definition removeItem_api ::
    "host \<Rightarrow> 's server \<Rightarrow> string \<Rightarrow> 's net \<Rightarrow> (js_error + jsval) \<times> 's net" where
  "removeItem_api h srv key n =
     (case fetch srv (post_json ''/change.js'' (JObj [(''id'', JStr key), (''quantity'', JNum (Fin 0))])) n of
        (Rejected e, n') \<Rightarrow> (Inl e, n')
      | (Resolved r, n') \<Rightarrow>
          if \<not> ok r then (Inl (description_error h r ''Failed to remove item''), n')
          else (json r, n'))"

section \<open>CartManager\<close>

text \<open>
  An \<^verbatim>\<open>async\<close> method runs synchronously up to its \<^verbatim>\<open>await\<close> of the gateway call and
  is resumed when that call settles. Each method is therefore two functions: the part
  up to the dispatch, which records the gateway call and leaves the stack of suspended
  frames (the method's own, then those of the async callers awaiting it) in \<open>pending\<close>;
  and the \<open>_resume\<close> part, which continues a frame with the result the awaited promise
  settled with (\<open>Inl\<close> a rejection) and yields what the frame's own promise settles with.

  \<open>cartStore\<close> is the object \<^verbatim>\<open>getCartStore()\<close> returns: the store registered as
  \<^verbatim>\<open>Alpine.store('cart')\<close>, or \<^verbatim>\<open>null\<close> (\<^verbatim>\<open>this.store\<close> is never assigned). By the
  source's comments it is one object, registered by the theme before the cart manager
  runs, so the reference a method captured at its start is the store read on
  resumption, and the branches of the source that need a store without Alpine cannot
  run. \<open>processing\<close> is \<^verbatim>\<open>dataset.processing\<close> of each
  element. The drawer is only counted: \<open>drawer_timers\<close> is the number of
  \<^verbatim>\<open>setTimeout(() => this.sideCart.open(), 100)\<close> set so far.
\<close>

type_synonym elem = nat

datatype api_call =
    AddItem jsval
  | AddItems "jsval list"
  | UpdateItem string jsval
  | RemoveItem string
  | GetCart

datatype frame =
    LoadInitialCartF
  | AddToCartF bool
  | UpdateQuantityF
  | RemoveItemF
  | HandleFormSubmitF elem
  | HandleQuickAddF elem

record world =
  cartStore :: "store option"
  processing :: "elem \<Rightarrow> string option"
  calls :: "api_call list"
  pending :: "frame list list"
  drawer_timers :: nat

text \<open>\<^verbatim>\<open>if (cartStore) { cartStore.f(...) }\<close>\<close>

definition with_store :: "(store \<Rightarrow> store) \<Rightarrow> world \<Rightarrow> world" where
  "with_store f w = w\<lparr>cartStore := map_option f (cartStore w)\<rparr>"

definition dispatch :: "api_call \<Rightarrow> frame list \<Rightarrow> world \<Rightarrow> world" where
  "dispatch c stack w = w\<lparr>calls := calls w @ [c], pending := pending w @ [stack]\<rparr>"

text \<open>The assignments made directly on the Alpine store in \<^verbatim>\<open>loadInitialCart\<close>,
  \<^verbatim>\<open>addToCart\<close> and \<^verbatim>\<open>removeItem\<close> before \<^verbatim>\<open>updateCart\<close> is called as well: the
  exception they end with, if any, and the store at that point. The read of
  \<^verbatim>\<open>cart.items\<close> throws on \<^verbatim>\<open>null\<close> and \<^verbatim>\<open>undefined\<close>; \<^verbatim>\<open>formatMoney\<close> may throw after
  the first three fields are assigned.\<close>

definition assign_cart :: "host \<Rightarrow> jsval \<Rightarrow> store \<Rightarrow> js_error option \<times> store" where
  "assign_cart h cart st =
     (if nullish cart then (Some (read_error cart ''items''), st)
      else
        (let st1 = st\<lparr>items := (case field cart ''items'' of JArr xs \<Rightarrow> xs | _ \<Rightarrow> []),
                       item_count := js_or (field cart ''item_count'') (JNum (Fin 0)),
                       total_price := js_or (field cart ''total_price'') (JNum (Fin 0))\<rparr>
         in case formatMoney h (js_or (field cart ''total_price'') (JNum (Fin 0))) of
              Inl e \<Rightarrow> (Some e, st1)
            | Inr shown \<Rightarrow> (None, st1\<lparr>formatted_total := shown\<rparr>)))"

text \<open>\<^verbatim>\<open>loadInitialCart\<close> fetches the cart and, resumed, puts it in the store; it touches
  neither \<^verbatim>\<open>loading\<close> nor, on a failure, anything at all (the error is logged).\<close>

definition loadInitialCart :: "frame list \<Rightarrow> world \<Rightarrow> world" where
  "loadInitialCart awaiting w = dispatch GetCart (LoadInitialCartF # awaiting) w"

definition loadInitialCart_resume ::
    "host \<Rightarrow> js_error + jsval \<Rightarrow> world \<Rightarrow> (js_error + jsval) \<times> world" where
  "loadInitialCart_resume h res w =
     (case res of
        Inl e \<Rightarrow> (Inr JUndefined, w)
      | Inr cart \<Rightarrow>
          (case cartStore w of
             None \<Rightarrow> (Inr JUndefined, w)
           | Some st \<Rightarrow>
               (case assign_cart h cart st of
                  (Some e, st1) \<Rightarrow> (Inr JUndefined, w\<lparr>cartStore := Some st1\<rparr>)
                | (None, st1) \<Rightarrow>
                    (case updateCart h cart st1 of
                       (thrown, st2) \<Rightarrow> (Inr JUndefined, w\<lparr>cartStore := Some st2\<rparr>)))))"

definition addToCart :: "jsval \<Rightarrow> bool \<Rightarrow> frame list \<Rightarrow> world \<Rightarrow> world" where
  "addToCart itemOrItems openCart awaiting w =
     (let w1 = with_store (setError None) (with_store (setLoading True) w);
          c = (case itemOrItems of JArr xs \<Rightarrow> AddItems xs | _ \<Rightarrow> AddItem itemOrItems)
      in dispatch c (AddToCartF openCart # awaiting) w1)"

text \<open>The rest of the \<^verbatim>\<open>try\<close> block of \<^verbatim>\<open>addToCart\<close> once the gateway call has resolved
  with \<open>cart\<close>: the exception it ends with, if any, and the world at that point.\<close>

definition addToCart_try :: "host \<Rightarrow> jsval \<Rightarrow> bool \<Rightarrow> world \<Rightarrow> js_error option \<times> world" where
  "addToCart_try h cart openCart w =
     (let opened = (\<lambda>w'. if openCart then w'\<lparr>drawer_timers := drawer_timers w' + 1\<rparr> else w')
      in case cartStore w of
           None \<Rightarrow> (None, opened w)
         | Some st \<Rightarrow>
             (case assign_cart h cart st of
                (Some e, st1) \<Rightarrow> (Some e, w\<lparr>cartStore := Some st1\<rparr>)
              | (None, st1) \<Rightarrow>
                  (case updateCart h cart (st1\<lparr>error := None\<rparr>) of
                     (Some e, st2) \<Rightarrow> (Some e, w\<lparr>cartStore := Some st2\<rparr>)
                   | (None, st2) \<Rightarrow> (None, opened (w\<lparr>cartStore := Some st2\<rparr>)))))"

definition addToCart_resume ::
    "host \<Rightarrow> bool \<Rightarrow> js_error + jsval \<Rightarrow> world \<Rightarrow> (js_error + jsval) \<times> world" where
  "addToCart_resume h openCart res w =
     (let (thrown, w1) =
            (case res of
               Inl e \<Rightarrow> (Some e, w)
             | Inr cart \<Rightarrow> addToCart_try h cart openCart w)
      in case thrown of
           None \<Rightarrow> (res, with_store (setLoading False) w1)
         | Some e \<Rightarrow>
             (Inl e, with_store (setLoading False) (with_store (setError (Some (message e))) w1)))"

definition updateQuantity :: "string \<Rightarrow> jsval \<Rightarrow> frame list \<Rightarrow> world \<Rightarrow> world" where
  "updateQuantity key quantity awaiting w =
     dispatch (UpdateItem key quantity) (UpdateQuantityF # awaiting)
       (with_store (setLoading True) w)"

definition updateQuantity_resume ::
    "host \<Rightarrow> js_error + jsval \<Rightarrow> world \<Rightarrow> (js_error + jsval) \<times> world" where
  "updateQuantity_resume h res w =
     (let (thrown, w1) =
            (case res of
               Inl e \<Rightarrow> (Some e, w)
             | Inr cart \<Rightarrow>
                 (case cartStore w of
                    None \<Rightarrow> (None, w)
                  | Some st \<Rightarrow>
                      (case updateCart h cart st of
                         (thrown, st') \<Rightarrow> (thrown, w\<lparr>cartStore := Some st'\<rparr>))))
      in case thrown of
           None \<Rightarrow> (res, with_store (setLoading False) w1)
         | Some e \<Rightarrow>
             (Inl e, with_store (setLoading False) (with_store (setError (Some (message e))) w1)))"

definition removeItem :: "string \<Rightarrow> frame list \<Rightarrow> world \<Rightarrow> world" where
  "removeItem key awaiting w =
     dispatch (RemoveItem key) (RemoveItemF # awaiting) (with_store (setLoading True) w)"

definition removeItem_resume ::
    "host \<Rightarrow> js_error + jsval \<Rightarrow> world \<Rightarrow> (js_error + jsval) \<times> world" where
  "removeItem_resume h res w =
     (let (thrown, w1) =
            (case res of
               Inl e \<Rightarrow> (Some e, w)
             | Inr cart \<Rightarrow>
                 (case cartStore w of
                    None \<Rightarrow> (None, w)
                  | Some st \<Rightarrow>
                      (case assign_cart h cart st of
                         (Some e, st1) \<Rightarrow> (Some e, w\<lparr>cartStore := Some st1\<rparr>)
                       | (None, st1) \<Rightarrow>
                           (case updateCart h cart st1 of
                              (thrown, st2) \<Rightarrow> (thrown, w\<lparr>cartStore := Some st2\<rparr>)))))
      in case thrown of
           None \<Rightarrow> (res, with_store (setLoading False) w1)
         | Some e \<Rightarrow>
             (Inl e, with_store (setLoading False) (with_store (setError (Some (message e))) w1)))"

subsection \<open>UI triggers\<close>

text \<open>
  What the handlers read of a submitted form: the text entries of \<^verbatim>\<open>new FormData(form)\<close>
  in order, and the value of \<^verbatim>\<open>form.querySelector('input[name="id"]')\<close> when there is
  such an input. Of a quick-add button: \<^verbatim>\<open>dataset.variantId\<close>, \<^verbatim>\<open>dataset.quantity\<close>, and
  \<^verbatim>\<open>button.closest('form')?.querySelector('input[name="id"]')?.value\<close>. \<open>None\<close> is
  \<^verbatim>\<open>null\<close> or \<^verbatim>\<open>undefined\<close>.
\<close>

record form =
  entries :: "(string \<times> string) list"
  id_input :: "string option"

record button =
  data_variantId :: "string option"
  data_quantity :: "string option"
  closest_form_id :: "string option"

definition falsy_str :: "string option \<Rightarrow> bool" where
  "falsy_str a = (case a of None \<Rightarrow> True | Some s \<Rightarrow> s = [])"

definition or_default :: "string option \<Rightarrow> string \<Rightarrow> string" where
  "or_default a d = (case a of None \<Rightarrow> d | Some s \<Rightarrow> if s = [] then d else s)"

text \<open>\<^verbatim>\<open>properties[propKey] = value\<close> on an object kept as the list of its properties.\<close>

fun assign_prop :: "string \<Rightarrow> jsval \<Rightarrow> (string \<times> jsval) list \<Rightarrow> (string \<times> jsval) list" where
  "assign_prop k v [] = [(k, v)]"
| "assign_prop k v ((k', v') # kvs) =
     (if k' = k then (k, v) # kvs else (k', v') # assign_prop k v kvs)"

text \<open>The loop over \<^verbatim>\<open>formData.entries()\<close> that collects the line item properties.\<close>

fun collect_properties ::
    "(string \<times> string) list \<Rightarrow> (string \<times> jsval) list \<Rightarrow> (string \<times> jsval) list" where
  "collect_properties [] properties = properties"
| "collect_properties ((key, v) # rest) properties =
     collect_properties rest
       (if take 11 key = ''properties['' \<and> key \<noteq> [] \<and> last key = CHR '']''
        then (let propKey = remove1 (CHR '']'') (drop 11 key)
              in if v \<noteq> [] then assign_prop propKey (JStr v) properties else properties)
        else properties)"

text \<open>The item \<^verbatim>\<open>handleFormSubmit\<close> builds inside its \<^verbatim>\<open>try\<close>, or the error it throws
  before any gateway call.\<close>

definition form_item :: "host \<Rightarrow> form \<Rightarrow> js_error + jsval" where
  "form_item h f =
     (let got = map_of (entries f) ''id'';
          variantId = (if falsy_str got then id_input f else got)
      in case variantId of
           None \<Rightarrow> Inl (Error ''Variant ID not found. Please select a product variant.'')
         | Some v \<Rightarrow>
             if v = [] then Inl (Error ''Variant ID not found. Please select a product variant.'')
             else
               (let quantity = parseInt10 h (or_default (map_of (entries f) ''quantity'') ''1'');
                    properties = collect_properties (entries f) []
                in Inr (JObj ([(''id'', JStr v), (''quantity'', JNum quantity)]
                          @ (if properties \<noteq> [] then [(''properties'', JObj properties)] else [])))))"

definition handleFormSubmit :: "host \<Rightarrow> elem \<Rightarrow> form \<Rightarrow> world \<Rightarrow> world" where
  "handleFormSubmit h form_el f w =
     (if processing w form_el = Some ''true'' then w
      else
        (let w1 = with_store (setLoading True) (w\<lparr>processing := (processing w)(form_el \<mapsto> ''true'')\<rparr>)
         in case form_item h f of
              Inr item \<Rightarrow> addToCart item True [HandleFormSubmitF form_el] w1
            | Inl e \<Rightarrow>
                (let w2 = with_store (setLoading False) (with_store (setError (Some (message e))) w1)
                 in w2\<lparr>processing := (processing w2)(form_el \<mapsto> ''false'')\<rparr>)))"

text \<open>\<^verbatim>\<open>handleFormSubmit\<close> after its \<^verbatim>\<open>await this.addToCart(item)\<close>: the \<^verbatim>\<open>catch\<close> block
  on a rejection, then the \<^verbatim>\<open>finally\<close> block.\<close>

definition handleFormSubmit_resume ::
    "elem \<Rightarrow> js_error + jsval \<Rightarrow> world \<Rightarrow> (js_error + jsval) \<times> world" where
  "handleFormSubmit_resume form_el res w =
     (let w1 = (case res of Inl e \<Rightarrow> with_store (setError (Some (message e))) w | Inr cart \<Rightarrow> w);
          w2 = with_store (setLoading False) w1
      in (Inr JUndefined, w2\<lparr>processing := (processing w2)(form_el \<mapsto> ''false'')\<rparr>))"

definition button_item :: "host \<Rightarrow> button \<Rightarrow> js_error + jsval" where
  "button_item h b =
     (let variantId = (if falsy_str (data_variantId b) then closest_form_id b else data_variantId b);
          quantity = parseInt10 h (or_default (data_quantity b) ''1'')
      in case variantId of
           None \<Rightarrow> Inl (Error ''Variant ID not found'')
         | Some v \<Rightarrow>
             if v = [] then Inl (Error ''Variant ID not found'')
             else Inr (JObj [(''id'', JStr v), (''quantity'', JNum quantity)]))"

definition handleQuickAdd :: "host \<Rightarrow> elem \<Rightarrow> button \<Rightarrow> world \<Rightarrow> world" where
  "handleQuickAdd h button_el b w =
     (if processing w button_el = Some ''true'' then w
      else
        (let w1 = with_store (setLoading True) (w\<lparr>processing := (processing w)(button_el \<mapsto> ''true'')\<rparr>)
         in case button_item h b of
              Inr item \<Rightarrow> addToCart item True [HandleQuickAddF button_el] w1
            | Inl e \<Rightarrow>
                (let w2 = with_store (setLoading False) (with_store (setError (Some (message e))) w1)
                 in w2\<lparr>processing := (processing w2)(button_el \<mapsto> ''false'')\<rparr>)))"

definition handleQuickAdd_resume ::
    "elem \<Rightarrow> js_error + jsval \<Rightarrow> world \<Rightarrow> (js_error + jsval) \<times> world" where
  "handleQuickAdd_resume button_el res w =
     (let w1 = (case res of Inl e \<Rightarrow> with_store (setError (Some (message e))) w | Inr cart \<Rightarrow> w);
          w2 = with_store (setLoading False) w1
      in (Inr JUndefined, w2\<lparr>processing := (processing w2)(button_el \<mapsto> ''false'')\<rparr>))"

subsection \<open>getMethods\<close>

text \<open>The quantity controls. They call \<^verbatim>\<open>updateQuantity\<close> without awaiting it. An
  exception of \<^verbatim>\<open>getItem\<close> or of the arithmetic on \<^verbatim>\<open>item.quantity\<close> leaves the
  callback before anything is changed; it is returned beside the world.\<close>

definition incrementQuantity :: "host \<Rightarrow> string \<Rightarrow> world \<Rightarrow> js_error option \<times> world" where
  "incrementQuantity h key w =
     (case cartStore w of
        None \<Rightarrow> (None, w)
      | Some st \<Rightarrow>
          (case getItem key st of
             Inl e \<Rightarrow> (Some e, w)
           | Inr item \<Rightarrow>
               if truthy item
               then (case js_plus_1 h (field item ''quantity'') of
                       Inl e \<Rightarrow> (Some e, w)
                     | Inr quantity \<Rightarrow> (None, updateQuantity key quantity [] w))
               else (None, w)))"

definition decrementQuantity :: "host \<Rightarrow> string \<Rightarrow> world \<Rightarrow> js_error option \<times> world" where
  "decrementQuantity h key w =
     (case cartStore w of
        None \<Rightarrow> (None, w)
      | Some st \<Rightarrow>
          (case getItem key st of
             Inl e \<Rightarrow> (Some e, w)
           | Inr item \<Rightarrow>
               if truthy item
               then (case js_gt_1 h (field item ''quantity'') of
                       Inl e \<Rightarrow> (Some e, w)
                     | Inr gt1 \<Rightarrow>
                         if gt1
                         then (case js_minus_1 h (field item ''quantity'') of
                                 Inl e \<Rightarrow> (Some e, w)
                               | Inr quantity \<Rightarrow> (None, updateQuantity key quantity [] w))
                         else (None, w))
               else (None, w)))"

subsection \<open>The page as a machine\<close>

text \<open>
  One step of the page is the cart manager loading the cart, a UI event, or the
  settling of a gateway call in flight. \<open>Submit\<close> and \<open>QuickAdd\<close> are the calls of
  \<^verbatim>\<open>handleFormSubmit\<close> and \<^verbatim>\<open>handleQuickAdd\<close> that the document's listeners make. (The
  submit listener itself passes over a form already marked \<^verbatim>\<open>true\<close> without preventing
  the browser's own submission of it; what the browser then does is not part of this
  model.)
  \<open>Settle i res\<close> settles the call whose frames are \<open>pending ! i\<close> with \<open>res\<close> and
  resumes its frames innermost first, each with what the one before settled with.
\<close>

fun resume_frame ::
    "host \<Rightarrow> frame \<Rightarrow> js_error + jsval \<Rightarrow> world \<Rightarrow> (js_error + jsval) \<times> world" where
  "resume_frame h LoadInitialCartF res w = loadInitialCart_resume h res w"
| "resume_frame h (AddToCartF openCart) res w = addToCart_resume h openCart res w"
| "resume_frame h UpdateQuantityF res w = updateQuantity_resume h res w"
| "resume_frame h RemoveItemF res w = removeItem_resume h res w"
| "resume_frame h (HandleFormSubmitF el) res w = handleFormSubmit_resume el res w"
| "resume_frame h (HandleQuickAddF el) res w = handleQuickAdd_resume el res w"

fun resume_stack ::
    "host \<Rightarrow> frame list \<Rightarrow> js_error + jsval \<Rightarrow> world \<Rightarrow> (js_error + jsval) \<times> world" where
  "resume_stack h [] res w = (res, w)"
| "resume_stack h (fr # frs) res w =
     (case resume_frame h fr res w of (res', w') \<Rightarrow> resume_stack h frs res' w')"

definition settle :: "host \<Rightarrow> nat \<Rightarrow> js_error + jsval \<Rightarrow> world \<Rightarrow> world" where
  "settle h i res w =
     (if i < length (pending w)
      then snd (resume_stack h (pending w ! i) res
                  (w\<lparr>pending := take i (pending w) @ drop (Suc i) (pending w)\<rparr>))
      else w)"

datatype event =
    Load
  | Submit elem form
  | QuickAdd elem button
  | Increment string
  | Decrement string
  | Remove string
  | Settle nat "js_error + jsval"

fun fire :: "host \<Rightarrow> event \<Rightarrow> world \<Rightarrow> world" where
  "fire h Load w = loadInitialCart [] w"
| "fire h (Submit el f) w = handleFormSubmit h el f w"
| "fire h (QuickAdd el b) w = handleQuickAdd h el b w"
| "fire h (Increment key) w = snd (incrementQuantity h key w)"
| "fire h (Decrement key) w = snd (decrementQuantity h key w)"
| "fire h (Remove key) w = removeItem key [] w"
| "fire h (Settle i res) w = settle h i res w"

fun run :: "host \<Rightarrow> event list \<Rightarrow> world \<Rightarrow> world" where
  "run h [] w = w"
| "run h (ev # evs) w = run h evs (fire h ev w)"

text \<open>The page before any event: no element is marked, nothing is in flight.\<close>

definition initial_world :: "store option \<Rightarrow> world" where
  "initial_world st =
     \<lparr>cartStore = st, processing = (\<lambda>el. None), calls = [], pending = [], drawer_timers = 0\<rparr>"

text \<open>The number of gateway calls in flight that a handler of element \<open>el\<close> awaits.\<close>

definition mentions :: "elem \<Rightarrow> frame list \<Rightarrow> bool" where
  "mentions el stack = (HandleFormSubmitF el \<in> set stack \<or> HandleQuickAddF el \<in> set stack)"

definition in_flight :: "world \<Rightarrow> elem \<Rightarrow> nat" where
  "in_flight w el = length (filter (mentions el) (pending w))"

text \<open>The gateway method behind each recorded call.\<close>

fun perform ::
    "host \<Rightarrow> 's server \<Rightarrow> api_call \<Rightarrow> 's net \<Rightarrow> (js_error + jsval) \<times> 's net" where
  "perform h srv (AddItem item) n = addItem h srv item n"
| "perform h srv (AddItems its) n = addItems h srv its n"
| "perform h srv (UpdateItem key quantity) n = updateItem h srv key quantity n"
| "perform h srv (RemoveItem key) n = removeItem_api h srv key n"
| "perform h srv GetCart n = getCart srv n"

section \<open>Observations and concrete inputs\<close>

text \<open>A page without a platform formatter, on an engine reduced to what the examples
  need: it reads a string of decimal digits as that number and anything else as
  \<^verbatim>\<open>NaN\<close>, and it prints no number.\<close>

definition decimal :: "string \<Rightarrow> jsnum" where
  "decimal s =
     (if s \<noteq> [] \<and> list_all (\<lambda>c. c \<in> set ''0123456789'') s
      then Fin (of_nat (foldl (\<lambda>a c. 10 * a + (of_char c - 48)) 0 s))
      else NaN)"

definition plain_host :: host where
  "plain_host =
     \<lparr>Shopify_formatMoney = None, NumberToString = (\<lambda>r. []), StringToNumber = decimal,
      parseInt10 = decimal\<rparr>"

text \<open>A response that is not ok and whose JSON body parses to a value other than
  \<^verbatim>\<open>null\<close> (on which the read of \<^verbatim>\<open>description\<close> throws) that has no truthy
  \<^verbatim>\<open>description\<close>: the case in which \<^verbatim>\<open>updateItem\<close> and \<^verbatim>\<open>removeItem\<close> fall back on
  their own fixed message.\<close>

definition generic_failure :: "fetch_outcome \<Rightarrow> bool" where
  "generic_failure outcome =
     (case outcome of
        Rejected e \<Rightarrow> False
      | Resolved r \<Rightarrow>
          (if ok r then False
           else (case json r of
                   Inl e \<Rightarrow> False
                 | Inr err \<Rightarrow> if nullish err then False else \<not> truthy (field err ''description''))))"

definition idle_net :: "unit net" where
  "idle_net = \<lparr>server_state = (), sent = []\<rparr>"

text \<open>A server that refuses every request with status 422 and the JSON body \<^verbatim>\<open>{}\<close>.\<close>

definition refusing_server :: "unit server" where
  "refusing_server rq s =
     (Resolved \<lparr>ok = False, status = 422, json = Inr (JObj []), text_body = Inr ''{}''\<rparr>, s)"

text \<open>A server behind a failing proxy: status 502 and an HTML body, on which
  \<^verbatim>\<open>response.json()\<close> rejects with the parser's SyntaxError and a later
  \<^verbatim>\<open>response.text()\<close> with the TypeError of a body already read.\<close>

definition proxy_error_server :: "unit server" where
  "proxy_error_server rq s =
     (Resolved \<lparr>ok = False, status = 502,
                json = Inl (SyntaxError ''Unexpected token < in JSON at position 0''),
                text_body = Inl (TypeError ''body stream already read'')\<rparr>, s)"

text \<open>An item to add, and a server that accepts every request: it answers a POST to
  \<^verbatim>\<open>/cart/add.js\<close> with the added line (not a cart) and every other request with a cart
  of that one line.\<close>

definition item_V1 :: jsval where
  "item_V1 = JObj [(''id'', JStr ''V1''), (''quantity'', JNum (Fin 2))]"

definition line_V1 :: jsval where
  "line_V1 = JObj [(''key'', JStr ''V1:abc''), (''id'', JStr ''V1''), (''quantity'', JNum (Fin 2)),
                   (''price'', JNum (Fin 1099))]"

definition cart_V1 :: jsval where
  "cart_V1 = JObj [(''items'', JArr [line_V1]), (''item_count'', JNum (Fin 2)),
                   (''total_price'', JNum (Fin 2198))]"

definition shop_server :: "unit server" where
  "shop_server rq s =
     (if url rq = ''/cart/add.js''
      then (Resolved \<lparr>ok = True, status = 200, json = Inr line_V1, text_body = Inr ''''\<rparr>, s)
      else (Resolved \<lparr>ok = True, status = 200, json = Inr cart_V1, text_body = Inr ''''\<rparr>, s))"

text \<open>A payload whose \<^verbatim>\<open>total_price\<close> is an object with a property named \<^verbatim>\<open>toString\<close>,
  as \<^verbatim>\<open>JSON.parse\<close> gives for \<^verbatim>\<open>{"items": [], "total_price": {"toString": 1}}\<close>.\<close>

definition unprintable_cart :: jsval where
  "unprintable_cart =
     JObj [(''items'', JArr []), (''total_price'', JObj [(''toString'', JNum (Fin 1))])]"

text \<open>A page whose store shows an earlier failure.\<close>

definition stale_world :: world where
  "stale_world = initial_world (Some (initial_store\<lparr>error := Some ''Earlier failure''\<rparr>))"

text \<open>A page whose cart holds two lines, the second with quantity 1.\<close>

definition line_single :: jsval where
  "line_single = JObj [(''key'', JStr ''V2:def''), (''id'', JStr ''V2''), (''quantity'', JNum (Fin 1)),
                       (''price'', JNum (Fin 500))]"

definition cart_world :: world where
  "cart_world =
     initial_world (Some (initial_store\<lparr>items := [line_V1, line_single],
        item_count := JNum (Fin 3), total_price := JNum (Fin 2698),
        formatted_total := ''$26.98''\<rparr>))"

definition form_V1 :: form where
  "form_V1 = \<lparr>entries = [(''id'', ''V1''), (''quantity'', ''2'')], id_input = Some ''V1''\<rparr>"

definition button_V1 :: button where
  "button_V1 = \<lparr>data_variantId = Some ''V1'', data_quantity = None, closest_form_id = None\<rparr>"

text \<open>The page after one submit of a product form, element 7, whose call is in flight.\<close>

definition submitted_world :: world where
  "submitted_world = run plain_host [Submit 7 form_V1] (initial_world (Some initial_store))"

text \<open>An element's flag agrees with the calls in flight for it.\<close>

definition flag_matches :: "world \<Rightarrow> elem \<Rightarrow> bool" where
  "flag_matches w el = (in_flight w el = (if processing w el = Some ''true'' then 1 else 0))"

section \<open>Properties of the store\<close>

subsection \<open>Money formatting\<close>

lemma digits_lt_10: "n < 10 \<Longrightarrow> digits n = [digit_char n]"
  by (simp add: digits.simps)

lemma digits_ge_10: "10 \<le> n \<Longrightarrow> digits n = digits (n div 10) @ [digit_char (n mod 10)]"
  by (subst digits.simps) simp

lemma length_digits_pos: "0 < length (digits n)"
  by (subst digits.simps) simp

lemma digits_ge_100:
  assumes "100 \<le> n"
  shows "digits n = digits (n div 100) @ [digit_char (n div 10 mod 10), digit_char (n mod 10)]"
proof -
  have a: "digits n = digits (n div 10) @ [digit_char (n mod 10)]"
    using assms by (simp add: digits_ge_10)
  have "10 \<le> n div 10" using assms by simp
  then have b: "digits (n div 10) = digits (n div 10 div 10) @ [digit_char (n div 10 mod 10)]"
    by (rule digits_ge_10)
  have c: "n div 10 div 10 = n div 100" by (simp add: div_mult2_eq)
  show ?thesis using a b c by simp
qed

text \<open>The digit string of \<open>n\<close>, padded to three digits, with a point before the last two.\<close>

lemma point_before_last_two:
  fixes n :: nat
  defines "m \<equiv> digits n"
  defines "m' \<equiv> (if (2::nat) \<noteq> 0 \<and> length m \<le> 2 then replicate (2 + 1 - length m) (CHR ''0'') @ m else m)"
  shows "take (length m' - 2) m' @ ''.'' @ drop (length m' - 2) m' =
         digits (n div 100) @ ''.'' @ [digit_char (n div 10 mod 10), digit_char (n mod 10)]"
proof -
  consider "n < 10" | "10 \<le> n" "n < 100" | "100 \<le> n" by linarith
  then show ?thesis
  proof cases
    case 1
    then show ?thesis
      by (simp add: m'_def m_def digits_lt_10 digit_char_def numeral_3_eq_3)
  next
    case 2
    then have "n div 10 < 10" by simp
    with 2 show ?thesis
      by (simp add: m'_def m_def digits_ge_10 digits_lt_10 digit_char_def)
  next
    case 3
    have "2 < length (digits n)" using 3 length_digits_pos [of "n div 100"]
      by (simp add: digits_ge_100)
    then show ?thesis using 3
      by (simp add: m'_def m_def digits_ge_100)
  qed
qed

lemma toFixed_2_cents:
  assumes "\<bar>c\<bar> < 10 ^ 23"
  shows "toFixed h (Fin (of_int c / 100)) 2 =
           (if c < 0 then ''-'' else '''') @ digits (nat \<bar>c\<bar> div 100) @ ''.''
             @ [digit_char (nat \<bar>c\<bar> div 10 mod 10), digit_char (nat \<bar>c\<bar> mod 10)]"
proof -
  let ?r = "(of_int c / 100 :: rat)"
  have abs: "\<bar>?r\<bar> = of_int \<bar>c\<bar> / 100" by simp
  have "(of_int \<bar>c\<bar> :: rat) < of_int (10 ^ 23)" using assms by (simp only: of_int_less_iff)
  then have small: "\<not> (\<bar>?r\<bar> \<ge> 10 ^ 21)" by (simp add: abs)
  have n: "nat \<lfloor>\<bar>?r\<bar> * 10 ^ 2 + 1 / 2\<rfloor> = nat \<bar>c\<bar>"
  proof -
    have "\<bar>?r\<bar> * 10 ^ 2 + 1 / 2 = of_int \<bar>c\<bar> + 1 / 2" by (simp add: abs)
    moreover have "\<lfloor>(of_int k :: rat) + 1 / 2\<rfloor> = k" for k :: int
      by (rule floor_unique) simp_all
    ultimately show ?thesis by (simp only:)
  qed
  have neg: "(?r < 0) = (c < 0)" by simp
  have "toFixed h (Fin ?r) 2 =
          (if c < 0 then ''-'' else '''') @
          (let m = digits (nat \<bar>c\<bar>);
               m' = (if (2::nat) \<noteq> 0 \<and> length m \<le> 2 then replicate (2 + 1 - length m) (CHR ''0'') @ m else m)
           in take (length m' - 2) m' @ ''.'' @ drop (length m' - 2) m')"
    unfolding toFixed_def jsnum.case Let_def
    using small by (simp only: n neg if_False) simp
  then show ?thesis
    unfolding Let_def by (simp only: point_before_last_two)
qed

text \<open>
  C5. Without a platform formatter, \<^verbatim>\<open>formatMoney(cents)\<close> is the amount divided by 100,
  fixed to two decimals, behind a dollar sign: \<^verbatim>\<open>formatMoney(1099)\<close> is \<^verbatim>\<open>"$10.99"\<close>,
  \<^verbatim>\<open>formatMoney(0)\<close> is \<^verbatim>\<open>"$0.00"\<close>, and for every whole number of minor units of
  magnitude below \<open>100 * 2^46\<close> (the range in which the quotient computed in doubles
  renders as the exact one) the result is the dollar sign, a minus sign for a negative
  amount, the digits of the amount's hundreds, a point, and its last two digits.
\<close>

theorem formatMoney_fallback:
  assumes "Shopify_formatMoney h = None"
  shows "formatMoney h (JNum (Fin 1099)) = Inr ''$10.99''
       \<and> formatMoney h (JNum (Fin 0)) = Inr ''$0.00''
       \<and> (\<forall>c::int. \<bar>c\<bar> < 100 * 2 ^ 46 \<longrightarrow>
            formatMoney h (JNum (Fin (of_int c))) =
              Inr (''$'' @ (if c < 0 then ''-'' else '''') @ digits (nat \<bar>c\<bar> div 100) @ ''.''
                @ [digit_char (nat \<bar>c\<bar> div 10 mod 10), digit_char (nat \<bar>c\<bar> mod 10)]))"
proof -
  have general: "formatMoney h (JNum (Fin (of_int c))) =
              Inr (''$'' @ (if c < 0 then ''-'' else '''') @ digits (nat \<bar>c\<bar> div 100) @ ''.''
                @ [digit_char (nat \<bar>c\<bar> div 10 mod 10), digit_char (nat \<bar>c\<bar> mod 10)])"
    if "\<bar>c\<bar> < 10 ^ 23" for c :: int
    using assms toFixed_2_cents [OF that, of h] by (simp add: formatMoney_def)
  have range: "\<bar>c\<bar> < 10 ^ 23" if "\<bar>c\<bar> < 100 * 2 ^ 46" for c :: int
    using that by simp
  have "formatMoney h (JNum (Fin (of_int 1099))) = Inr ''$10.99''"
    by (subst general) (simp_all add: digits_ge_10 digits_lt_10 digit_char_def)
  moreover have "formatMoney h (JNum (Fin (of_int 0))) = Inr ''$0.00''"
    by (subst general) (simp_all add: digits_lt_10 digit_char_def)
  ultimately show ?thesis using general range by simp
qed

theorem formatMoney_fallback_witness:
  "formatMoney plain_host (JNum (Fin 1099)) = Inr ''$10.99''
   \<and> formatMoney plain_host (JNum (Fin 0)) = Inr ''$0.00''
   \<and> formatMoney plain_host (JNum (Fin 2997)) = Inr ''$29.97''
   \<and> formatMoney plain_host (JNum (Fin (- 5))) = Inr ''$-0.05''"
proof -
  have h: "Shopify_formatMoney plain_host = None" by (simp add: plain_host_def)
  have a: "\<bar>2997 :: int\<bar> < 100 * 2 ^ 46" and b: "\<bar>- 5 :: int\<bar> < 100 * 2 ^ 46" by simp_all
  from formatMoney_fallback [OF h] a b
  have "formatMoney plain_host (JNum (Fin (of_int 2997))) =
          Inr (''$'' @ (if (2997::int) < 0 then ''-'' else '''') @ digits (nat \<bar>2997\<bar> div 100) @ ''.''
                @ [digit_char (nat \<bar>2997\<bar> div 10 mod 10), digit_char (nat \<bar>2997\<bar> mod 10)])"
    and "formatMoney plain_host (JNum (Fin (of_int (- 5)))) =
          Inr (''$'' @ (if (- 5::int) < 0 then ''-'' else '''') @ digits (nat \<bar>- 5\<bar> div 100) @ ''.''
                @ [digit_char (nat \<bar>- 5\<bar> div 10 mod 10), digit_char (nat \<bar>- 5\<bar> mod 10)])"
    by blast+
  then show ?thesis using formatMoney_fallback [OF h]
    by (simp add: digits_ge_10 digits_lt_10 digit_char_def)
qed

subsection \<open>updateCart\<close>

lemma formatMoney_2997: "formatMoney plain_host (JNum (Fin 2997)) = Inr ''$29.97''"
proof -
  have "formatMoney plain_host (JNum (Fin (of_int 2997))) = Inr ''$29.97''"
    using toFixed_2_cents [of 2997 plain_host]
    by (simp add: formatMoney_def plain_host_def digits_ge_10 digits_lt_10 digit_char_def)
  then show ?thesis by simp
qed

text \<open>
  A payload of \<^verbatim>\<open>null\<close> (a response whose JSON body is \<^verbatim>\<open>null\<close>) makes \<^verbatim>\<open>updateCart\<close>
  throw at its first property read: nothing is assigned and \<^verbatim>\<open>error\<close> is not reset.
  A payload whose \<^verbatim>\<open>total_price\<close> is an object with a property named \<^verbatim>\<open>toString\<close>
  makes it throw in \<^verbatim>\<open>formatMoney\<close>, after \<^verbatim>\<open>items\<close>, \<^verbatim>\<open>item_count\<close> and \<^verbatim>\<open>total_price\<close>
  are assigned: \<^verbatim>\<open>formatted_total\<close> is not that of the stored \<^verbatim>\<open>total_price\<close>, and
  \<^verbatim>\<open>error\<close> is not reset.
\<close>

theorem updateCart_throws_counterexample:
  "updateCart plain_host JNull initial_store = (Some (read_error JNull ''items''), initial_store)
   \<and> updateCart plain_host unprintable_cart
         \<lparr>items = [line_V1], item_count = JNum (Fin 2), total_price = JNum (Fin 2198),
          formatted_total = ''$21.98'', loading = True, error = Some ''Earlier failure''\<rparr>
       = (Some (TypeError ''Cannot convert object to primitive value''),
          \<lparr>items = [], item_count = JNum (Fin 0),
           total_price = JObj [(''toString'', JNum (Fin 1))],
           formatted_total = ''$21.98'', loading = True, error = Some ''Earlier failure''\<rparr>)"
  by (simp add: updateCart_def nullish_def unprintable_cart_def js_or_def formatMoney_def
      plain_host_def)

text \<open>
  C9, for payloads other than \<^verbatim>\<open>null\<close> and \<^verbatim>\<open>undefined\<close> on whose \<^verbatim>\<open>total_price\<close> (or 0,
  when that is absent or falsy) \<^verbatim>\<open>formatMoney\<close> returns. \<^verbatim>\<open>updateCart\<close> returns normally
  and leaves a well-formed store: \<^verbatim>\<open>items\<close> is the payload's array, or \<^verbatim>\<open>[]\<close> when its
  \<^verbatim>\<open>items\<close> is not an array; \<^verbatim>\<open>item_count\<close> and \<^verbatim>\<open>total_price\<close> are the payload's when
  truthy and the number 0 otherwise; \<^verbatim>\<open>formatted_total\<close> is \<^verbatim>\<open>formatMoney\<close> of the stored
  \<^verbatim>\<open>total_price\<close>; \<^verbatim>\<open>error\<close> is \<^verbatim>\<open>null\<close>; \<^verbatim>\<open>loading\<close> is untouched.
\<close>

theorem updateCart_well_formed:
  assumes "\<not> nullish cartData"
    and "formatMoney h (js_or (field cartData ''total_price'') (JNum (Fin 0))) = Inr shown"
  shows "\<exists>st'. updateCart h cartData st = (None, st')
          \<and> items st' = (case field cartData ''items'' of JArr xs \<Rightarrow> xs | _ \<Rightarrow> [])
          \<and> item_count st' = (if truthy (field cartData ''item_count'')
                               then field cartData ''item_count'' else JNum (Fin 0))
          \<and> total_price st' = (if truthy (field cartData ''total_price'')
                                then field cartData ''total_price'' else JNum (Fin 0))
          \<and> formatMoney h (total_price st') = Inr (formatted_total st')
          \<and> error st' = None
          \<and> loading st' = loading st"
  using assms by (simp add: updateCart_def js_or_def Let_def)

theorem updateCart_well_formed_witness:
  "\<not> nullish (JObj [(''items'', JStr ''none''), (''total_price'', JNum (Fin 2997))])
   \<and> formatMoney plain_host
         (js_or (field (JObj [(''items'', JStr ''none''), (''total_price'', JNum (Fin 2997))])
                   ''total_price'') (JNum (Fin 0))) = Inr ''$29.97''
   \<and> (\<exists>st'. updateCart plain_host (JObj [(''items'', JStr ''none''), (''total_price'', JNum (Fin 2997))])
               (initial_store\<lparr>error := Some ''earlier''\<rparr>) = (None, st')
          \<and> items st' = []
          \<and> item_count st' = JNum (Fin 0)
          \<and> total_price st' = JNum (Fin 2997)
          \<and> formatted_total st' = ''$29.97''
          \<and> error st' = None)"
proof -
  have n: "\<not> nullish (JObj [(''items'', JStr ''none''), (''total_price'', JNum (Fin 2997))])"
    by (simp add: nullish_def)
  have f: "formatMoney plain_host
         (js_or (field (JObj [(''items'', JStr ''none''), (''total_price'', JNum (Fin 2997))])
                   ''total_price'') (JNum (Fin 0))) = Inr ''$29.97''"
    by (simp add: js_or_def formatMoney_2997)
  from updateCart_well_formed [OF n f, of "initial_store\<lparr>error := Some ''earlier''\<rparr>"]
  show ?thesis using n f by (auto simp: formatMoney_2997)
qed

section \<open>Properties of the gateway\<close>

subsection \<open>Add, then fetch\<close>

lemma formatMoney_2198: "formatMoney plain_host (JNum (Fin 2198)) = Inr ''$21.98''"
proof -
  have "formatMoney plain_host (JNum (Fin (of_int 2198))) = Inr ''$21.98''"
    using toFixed_2_cents [of 2198 plain_host]
    by (simp add: formatMoney_def plain_host_def digits_ge_10 digits_lt_10 digit_char_def)
  then show ?thesis by simp
qed

text \<open>
  C2. When the server accepts a single-item add (the POST to \<^verbatim>\<open>/cart/add.js\<close> resolves ok
  with a JSON body) and the fetch of \<^verbatim>\<open>/cart.js\<close> that follows resolves ok with a
  snapshot, \<^verbatim>\<open>addItem\<close> has sent exactly that POST and then exactly that GET, and it
  returns the GET's snapshot, whatever the POST's body was. Resumed with it, \<^verbatim>\<open>addToCart\<close>
  returns the snapshot and leaves the store holding the snapshot's fields, the
  snapshot being an object whose \<^verbatim>\<open>total_price\<close> \<^verbatim>\<open>formatMoney\<close> formats.
\<close>

theorem addItem_then_getCart:
  assumes post: "srv \<lparr>url = ''/cart/add.js'', http_method = POST,
                      headers = [(''Content-Type'', ''application/json'')], body = Some item\<rparr>
                   (server_state n) = (Resolved r1, s1)"
      and accepted: "ok r1" "json r1 = Inr added"
      and get: "srv \<lparr>url = ''/cart.js'', http_method = GET,
                     headers = [(''Content-Type'', ''application/json'')], body = None\<rparr>
                   s1 = (Resolved r2, s2)"
      and fetched: "ok r2" "json r2 = Inr snapshot"
      and store: "cartStore w = Some st" "\<not> nullish snapshot"
      and priced: "formatMoney h (js_or (field snapshot ''total_price'') (JNum (Fin 0))) = Inr shown"
  shows "addItem h srv item n =
           (Inr snapshot,
            \<lparr>server_state = s2,
             sent = sent n @
               [\<lparr>url = ''/cart/add.js'', http_method = POST,
                 headers = [(''Content-Type'', ''application/json'')], body = Some item\<rparr>,
                \<lparr>url = ''/cart.js'', http_method = GET,
                 headers = [(''Content-Type'', ''application/json'')], body = None\<rparr>]\<rparr>)
       \<and> fst (addToCart_resume h openCart (Inr snapshot) w) = Inr snapshot
       \<and> cartStore (snd (addToCart_resume h openCart (Inr snapshot) w)) =
           Some (st\<lparr>items := (case field snapshot ''items'' of JArr xs \<Rightarrow> xs | _ \<Rightarrow> []),
                    item_count := js_or (field snapshot ''item_count'') (JNum (Fin 0)),
                    total_price := js_or (field snapshot ''total_price'') (JNum (Fin 0)),
                    formatted_total := shown,
                    error := None, loading := False\<rparr>)"
proof -
  let ?held = "st\<lparr>items := (case field snapshot ''items'' of JArr xs \<Rightarrow> xs | _ \<Rightarrow> []),
                    item_count := js_or (field snapshot ''item_count'') (JNum (Fin 0)),
                    total_price := js_or (field snapshot ''total_price'') (JNum (Fin 0)),
                    formatted_total := shown\<rparr>"
  have gateway: "addItem h srv item n =
           (Inr snapshot,
            \<lparr>server_state = s2,
             sent = sent n @
               [\<lparr>url = ''/cart/add.js'', http_method = POST,
                 headers = [(''Content-Type'', ''application/json'')], body = Some item\<rparr>,
                \<lparr>url = ''/cart.js'', http_method = GET,
                 headers = [(''Content-Type'', ''application/json'')], body = None\<rparr>]\<rparr>)"
    using post accepted get fetched
    by (simp add: addItem_def getCart_def fetch_def post_json_def get_cart_js_def)
  have assigned: "assign_cart h snapshot st = (None, ?held)"
    using store(2) priced by (simp add: assign_cart_def Let_def)
  have updated: "updateCart h snapshot (?held\<lparr>error := None\<rparr>) = (None, ?held\<lparr>error := None\<rparr>)"
    using store(2) priced by (simp add: updateCart_def Let_def)
  have resume: "addToCart_try h snapshot openCart w =
      (None, (if openCart then (\<lambda>w'. w'\<lparr>drawer_timers := drawer_timers w' + 1\<rparr>) else (\<lambda>w'. w'))
         (w\<lparr>cartStore := Some (?held\<lparr>error := None\<rparr>)\<rparr>))"
    using store(1) unfolding addToCart_try_def Let_def by (simp add: assigned updated)
  show ?thesis
    using gateway by (simp add: addToCart_resume_def resume with_store_def setLoading_def)
qed

theorem addItem_then_getCart_witness:
  "addItem plain_host shop_server item_V1 idle_net =
     (Inr cart_V1,
      \<lparr>server_state = (),
       sent = [\<lparr>url = ''/cart/add.js'', http_method = POST,
                headers = [(''Content-Type'', ''application/json'')], body = Some item_V1\<rparr>,
               \<lparr>url = ''/cart.js'', http_method = GET,
                headers = [(''Content-Type'', ''application/json'')], body = None\<rparr>]\<rparr>)
   \<and> formatMoney plain_host (js_or (field cart_V1 ''total_price'') (JNum (Fin 0))) = Inr ''$21.98''
   \<and> cartStore (snd (addToCart_resume plain_host True (Inr cart_V1)
                      (initial_world (Some initial_store)))) =
       Some \<lparr>items = [line_V1], item_count = JNum (Fin 2), total_price = JNum (Fin 2198),
             formatted_total = ''$21.98'', loading = False, error = None\<rparr>"
proof -
  have post: "shop_server \<lparr>url = ''/cart/add.js'', http_method = POST,
                      headers = [(''Content-Type'', ''application/json'')], body = Some item_V1\<rparr>
                   (server_state idle_net)
       = (Resolved \<lparr>ok = True, status = 200, json = Inr line_V1, text_body = Inr ''''\<rparr>, ())"
    by (simp add: shop_server_def)
  have get: "shop_server \<lparr>url = ''/cart.js'', http_method = GET,
                     headers = [(''Content-Type'', ''application/json'')], body = None\<rparr> ()
       = (Resolved \<lparr>ok = True, status = 200, json = Inr cart_V1, text_body = Inr ''''\<rparr>, ())"
    by (simp add: shop_server_def)
  have store: "cartStore (initial_world (Some initial_store)) = Some initial_store"
    by (simp add: initial_world_def)
  have obj: "\<not> nullish cart_V1" by (simp add: nullish_def cart_V1_def)
  have priced: "formatMoney plain_host (js_or (field cart_V1 ''total_price'') (JNum (Fin 0)))
                  = Inr ''$21.98''"
    by (simp add: cart_V1_def js_or_def formatMoney_2198)
  from addItem_then_getCart [where srv = shop_server and n = idle_net and h = plain_host
      and openCart = True, OF post _ _ get _ _ store obj priced]
  show ?thesis using priced
    by (simp add: idle_net_def initial_store_def cart_V1_def js_or_def)
qed

subsection \<open>Remove and update to zero\<close>

lemma change_request:
  "post_json ''/change.js'' payload =
     \<lparr>url = ''/cart/change.js'', http_method = POST,
      headers = [(''Content-Type'', ''application/json'')], body = Some payload\<rparr>"
  by (simp add: post_json_def)

text \<open>
  When a refusal carries a JSON body without a description, \<^verbatim>\<open>updateItem(key, 0)\<close> and
  \<^verbatim>\<open>removeItem(key)\<close> fail with different messages.
\<close>

theorem remove_differs_from_update_counterexample:
  "fst (updateItem plain_host refusing_server ''k'' (JNum (Fin 0)) idle_net)
     = Inl (Error ''Failed to update item'')
   \<and> fst (removeItem_api plain_host refusing_server ''k'' idle_net)
     = Inl (Error ''Failed to remove item'')"
  by (simp add: updateItem_def removeItem_api_def fetch_def refusing_server_def
      description_error_def nullish_def js_or_def)

text \<open>
  C6, but for the fixed message. For every key, \<^verbatim>\<open>removeItem(key)\<close> sends the request
  \<^verbatim>\<open>updateItem(key, 0)\<close> sends (one POST to \<^verbatim>\<open>/cart/change.js\<close> with the body
  \<^verbatim>\<open>{id: key, quantity: 0}\<close>) and leaves the server as that does; it returns the same
  result and fails with the same error, except on a refusal whose JSON body parses to
  a value other than \<^verbatim>\<open>null\<close> that has no truthy description, where update fails with
  \<^verbatim>\<open>Failed to update item\<close> and remove with \<^verbatim>\<open>Failed to remove item\<close>. (On a body of
  \<^verbatim>\<open>null\<close> both fail alike, with the TypeError of reading \<^verbatim>\<open>description\<close> of \<^verbatim>\<open>null\<close>.)
\<close>

theorem remove_is_update_zero:
  assumes "srv \<lparr>url = ''/cart/change.js'', http_method = POST,
                headers = [(''Content-Type'', ''application/json'')],
                body = Some (JObj [(''id'', JStr key), (''quantity'', JNum (Fin 0))])\<rparr>
             (server_state n) = (outcome, s')"
  shows "snd (removeItem_api h srv key n) = snd (updateItem h srv key (JNum (Fin 0)) n)
       \<and> snd (removeItem_api h srv key n) =
           \<lparr>server_state = s',
            sent = sent n @ [\<lparr>url = ''/cart/change.js'', http_method = POST,
                             headers = [(''Content-Type'', ''application/json'')],
                             body = Some (JObj [(''id'', JStr key), (''quantity'', JNum (Fin 0))])\<rparr>]\<rparr>
       \<and> (if generic_failure outcome
          then fst (updateItem h srv key (JNum (Fin 0)) n) = Inl (Error ''Failed to update item'')
             \<and> fst (removeItem_api h srv key n) = Inl (Error ''Failed to remove item'')
          else fst (removeItem_api h srv key n) = fst (updateItem h srv key (JNum (Fin 0)) n))"
  using assms
  by (cases outcome)
     (auto simp: updateItem_def removeItem_api_def fetch_def change_request generic_failure_def
        description_error_def js_or_def split: sum.splits)

theorem remove_is_update_zero_witness:
  "snd (removeItem_api plain_host shop_server ''V1:abc'' idle_net)
      = snd (updateItem plain_host shop_server ''V1:abc'' (JNum (Fin 0)) idle_net)
   \<and> fst (removeItem_api plain_host shop_server ''V1:abc'' idle_net) = Inr cart_V1
   \<and> fst (updateItem plain_host shop_server ''V1:abc'' (JNum (Fin 0)) idle_net) = Inr cart_V1"
proof -
  have a: "shop_server \<lparr>url = ''/cart/change.js'', http_method = POST,
                headers = [(''Content-Type'', ''application/json'')],
                body = Some (JObj [(''id'', JStr ''V1:abc''), (''quantity'', JNum (Fin 0))])\<rparr>
             (server_state idle_net)
           = (Resolved \<lparr>ok = True, status = 200, json = Inr cart_V1, text_body = Inr ''''\<rparr>, ())"
    by (simp add: shop_server_def)
  have b: "\<not> generic_failure (Resolved \<lparr>ok = True, status = 200, json = Inr cart_V1, text_body = Inr ''''\<rparr>)"
    by (simp add: generic_failure_def)
  have c: "fst (updateItem plain_host shop_server ''V1:abc'' (JNum (Fin 0)) idle_net) = Inr cart_V1"
    by (simp add: updateItem_def fetch_def shop_server_def post_json_def)
  from remove_is_update_zero [where srv = shop_server and n = idle_net and h = plain_host, OF a] b c
  show ?thesis by simp
qed

subsection \<open>Error bodies that do not parse\<close>

text \<open>
  C7 at a refusal whose body is not JSON, here a proxy's HTML page. \<^verbatim>\<open>updateItem\<close>,
  \<^verbatim>\<open>removeItem\<close> and \<^verbatim>\<open>addItems\<close> let the rejection of \<^verbatim>\<open>response.json()\<close> through: the
  error that surfaces is the parser's SyntaxError, whose message is neither the raw
  response text nor the method's fixed message.
\<close>

theorem updateItem_unparsed_error_body:
  "fst (updateItem plain_host proxy_error_server ''V1:abc'' (JNum (Fin 2)) idle_net)
     = Inl (SyntaxError ''Unexpected token < in JSON at position 0'')
   \<and> fst (removeItem_api plain_host proxy_error_server ''V1:abc'' idle_net)
     = Inl (SyntaxError ''Unexpected token < in JSON at position 0'')
   \<and> fst (addItems plain_host proxy_error_server [item_V1] idle_net)
     = Inl (SyntaxError ''Unexpected token < in JSON at position 0'')"
  by (simp add: updateItem_def removeItem_api_def addItems_def fetch_def proxy_error_server_def
      description_error_def)

section \<open>Properties of the synchronizer\<close>

subsection \<open>A failed gateway call\<close>

text \<open>
  C3. When the gateway call of a mutation fails with \<open>e\<close>, resuming the mutation
  (\<^verbatim>\<open>addToCart\<close>, \<^verbatim>\<open>updateQuantity\<close> or \<^verbatim>\<open>removeItem\<close>, alone or under a form or
  quick-add handler) rethrows \<open>e\<close> and changes nothing of the store but \<^verbatim>\<open>error\<close>, set
  to the message of \<open>e\<close>, and \<^verbatim>\<open>loading\<close>, set to false: \<^verbatim>\<open>items\<close>, \<^verbatim>\<open>item_count\<close>,
  \<^verbatim>\<open>total_price\<close> and \<^verbatim>\<open>formatted_total\<close> are what they were. Starting the mutation
  touched only \<^verbatim>\<open>loading\<close> and, in \<^verbatim>\<open>addToCart\<close>, \<^verbatim>\<open>error\<close>; so from the call to its
  failure only those two fields differ.
\<close>

theorem gateway_failure_keeps_snapshot:
  assumes "cartStore w = Some st"
  shows "resume_frame h (AddToCartF openCart) (Inl e) w =
           (Inl e, w\<lparr>cartStore := Some (st\<lparr>error := Some (message e), loading := False\<rparr>)\<rparr>)
       \<and> resume_frame h UpdateQuantityF (Inl e) w =
           (Inl e, w\<lparr>cartStore := Some (st\<lparr>error := Some (message e), loading := False\<rparr>)\<rparr>)
       \<and> resume_frame h RemoveItemF (Inl e) w =
           (Inl e, w\<lparr>cartStore := Some (st\<lparr>error := Some (message e), loading := False\<rparr>)\<rparr>)
       \<and> cartStore (snd (resume_stack h [AddToCartF openCart, HandleFormSubmitF el] (Inl e) w)) =
           Some (st\<lparr>error := Some (message e), loading := False\<rparr>)
       \<and> cartStore (snd (resume_stack h [AddToCartF openCart, HandleQuickAddF el] (Inl e) w)) =
           Some (st\<lparr>error := Some (message e), loading := False\<rparr>)
       \<and> cartStore (addToCart itemOrItems openCart [] w) = Some (st\<lparr>loading := True, error := None\<rparr>)
       \<and> cartStore (updateQuantity key quantity [] w) = Some (st\<lparr>loading := True\<rparr>)
       \<and> cartStore (removeItem key [] w) = Some (st\<lparr>loading := True\<rparr>)
       \<and> cartStore (settle h (length (pending w)) (Inl e) (addToCart itemOrItems openCart [] w)) =
           Some (st\<lparr>error := Some (message e), loading := False\<rparr>)
       \<and> cartStore (settle h (length (pending w)) (Inl e) (updateQuantity key quantity [] w)) =
           Some (st\<lparr>error := Some (message e), loading := False\<rparr>)
       \<and> cartStore (settle h (length (pending w)) (Inl e) (removeItem key [] w)) =
           Some (st\<lparr>error := Some (message e), loading := False\<rparr>)"
  using assms
  by (simp add: addToCart_resume_def updateQuantity_resume_def removeItem_resume_def
      handleFormSubmit_resume_def handleQuickAdd_resume_def
      addToCart_def updateQuantity_def removeItem_def dispatch_def settle_def
      with_store_def setError_def setLoading_def Let_def)

theorem gateway_failure_keeps_snapshot_witness:
  "cartStore (settle plain_host 0 (Inl (Error ''Sold out''))
               (updateQuantity ''V1:abc'' (JNum (Fin 3)) [] cart_world)) =
     Some \<lparr>items = [line_V1, line_single], item_count = JNum (Fin 3),
           total_price = JNum (Fin 2698), formatted_total = ''$26.98'',
           loading = False, error = Some ''Sold out''\<rparr>"
proof -
  have s: "cartStore cart_world = Some (initial_store\<lparr>items := [line_V1, line_single],
        item_count := JNum (Fin 3), total_price := JNum (Fin 2698),
        formatted_total := ''$26.98''\<rparr>)"
    by (simp add: cart_world_def initial_world_def)
  have p: "length (pending cart_world) = 0" by (simp add: cart_world_def initial_world_def)
  from gateway_failure_keeps_snapshot [OF s, where h = plain_host and e = "Error ''Sold out''"
      and key = "''V1:abc''" and quantity = "JNum (Fin 3)"]
  show ?thesis by (simp add: p initial_store_def)
qed

subsection \<open>The start of a mutation\<close>

text \<open>
  C8 at a store that shows an earlier failure. \<^verbatim>\<open>updateQuantity\<close> and \<^verbatim>\<open>removeItem\<close> set
  \<^verbatim>\<open>loading\<close> and dispatch their gateway call with the earlier error still in the
  store; \<^verbatim>\<open>addToCart\<close>, from the same state, has cleared it.
\<close>

theorem update_and_remove_keep_prior_error:
  "cartStore (updateQuantity ''V1:abc'' (JNum (Fin 3)) [] stale_world) =
     Some (initial_store\<lparr>loading := True, error := Some ''Earlier failure''\<rparr>)
   \<and> calls (updateQuantity ''V1:abc'' (JNum (Fin 3)) [] stale_world) =
     [UpdateItem ''V1:abc'' (JNum (Fin 3))]
   \<and> cartStore (removeItem ''V1:abc'' [] stale_world) =
     Some (initial_store\<lparr>loading := True, error := Some ''Earlier failure''\<rparr>)
   \<and> calls (removeItem ''V1:abc'' [] stale_world) = [RemoveItem ''V1:abc'']
   \<and> cartStore (addToCart item_V1 True [] stale_world) =
     Some (initial_store\<lparr>loading := True, error := None\<rparr>)"
  by (simp add: updateQuantity_def removeItem_def addToCart_def dispatch_def with_store_def
      setLoading_def setError_def stale_world_def initial_world_def initial_store_def item_V1_def)

subsection \<open>The quantity controls\<close>

lemma num_minus_1_not_zero: "num_gt_1 x \<Longrightarrow> num_minus_1 x \<noteq> Fin 0"
  by (cases x) auto

text \<open>
  C4. \<^verbatim>\<open>decrementQuantity(key)\<close> on a line whose quantity is 1 returns without a gateway
  call and leaves the whole page state, store and flags, as it was. And in any state,
  for any key, a decrement either issues no call or issues one update whose quantity is
  a number other than 0.
\<close>

theorem decrement_floor:
  assumes "cartStore w = Some st" and "getItem key st = Inr item"
    and "field item ''quantity'' = JNum (Fin 1)"
  shows "decrementQuantity h key w = (None, w)
       \<and> (\<forall>w0 k. calls (snd (decrementQuantity h k w0)) = calls w0
              \<or> (\<exists>q. calls (snd (decrementQuantity h k w0)) = calls w0 @ [UpdateItem k (JNum q)]
                     \<and> q \<noteq> Fin 0))"
proof -
  have floor: "decrementQuantity h key w = (None, w)"
    using assms by (simp add: decrementQuantity_def js_gt_1_def)
  have never_zero: "calls (snd (decrementQuantity h k w0)) = calls w0
              \<or> (\<exists>q. calls (snd (decrementQuantity h k w0)) = calls w0 @ [UpdateItem k (JNum q)]
                     \<and> q \<noteq> Fin 0)" for w0 k
    by (auto simp: decrementQuantity_def updateQuantity_def dispatch_def with_store_def
        js_gt_1_def js_minus_1_def num_minus_1_not_zero split: option.splits sum.splits)
  show ?thesis using floor never_zero by blast
qed

theorem decrement_floor_witness:
  "getItem ''V2:def'' (initial_store\<lparr>items := [line_V1, line_single],
        item_count := JNum (Fin 3), total_price := JNum (Fin 2698),
        formatted_total := ''$26.98''\<rparr>) = Inr line_single
   \<and> field line_single ''quantity'' = JNum (Fin 1)
   \<and> decrementQuantity plain_host ''V2:def'' cart_world = (None, cart_world)"
proof -
  have s: "cartStore cart_world = Some (initial_store\<lparr>items := [line_V1, line_single],
        item_count := JNum (Fin 3), total_price := JNum (Fin 2698),
        formatted_total := ''$26.98''\<rparr>)"
    by (simp add: cart_world_def initial_world_def)
  have g: "getItem ''V2:def'' (initial_store\<lparr>items := [line_V1, line_single],
        item_count := JNum (Fin 3), total_price := JNum (Fin 2698),
        formatted_total := ''$26.98''\<rparr>) = Inr line_single"
    by (simp add: getItem_def line_V1_def line_single_def nullish_def js_or_def)
  have q: "field line_single ''quantity'' = JNum (Fin 1)" by (simp add: line_single_def)
  from decrement_floor [OF s g q, of plain_host] g q show ?thesis by simp
qed

lemma find_key_no_match:
  "\<forall>item \<in> set xs. field item ''key'' \<noteq> JStr key \<Longrightarrow>
   find_key key xs = Inr JUndefined \<or> (\<exists>e. find_key key xs = Inl e)"
  by (induction xs) auto

text \<open>
  C10. When no element of the store's \<^verbatim>\<open>items\<close> has the given key,
  \<^verbatim>\<open>incrementQuantity(key)\<close> and \<^verbatim>\<open>decrementQuantity(key)\<close> leave the whole page state as
  it was: no gateway call is recorded and no store field changes.
\<close>

theorem unknown_key_is_noop:
  assumes "cartStore w = Some st"
    and "\<forall>item \<in> set (items st). field item ''key'' \<noteq> JStr key"
  shows "snd (incrementQuantity h key w) = w \<and> snd (decrementQuantity h key w) = w"
  using assms(1) find_key_no_match [OF assms(2)]
  by (auto simp: incrementQuantity_def decrementQuantity_def getItem_def js_or_def)

theorem unknown_key_is_noop_witness:
  "snd (incrementQuantity plain_host ''V9:none'' cart_world) = cart_world
   \<and> snd (decrementQuantity plain_host ''V9:none'' cart_world) = cart_world
   \<and> calls cart_world = []"
proof -
  have s: "cartStore cart_world = Some (initial_store\<lparr>items := [line_V1, line_single],
        item_count := JNum (Fin 3), total_price := JNum (Fin 2698),
        formatted_total := ''$26.98''\<rparr>)"
    by (simp add: cart_world_def initial_world_def)
  have k: "\<forall>item \<in> set (items (initial_store\<lparr>items := [line_V1, line_single],
        item_count := JNum (Fin 3), total_price := JNum (Fin 2698),
        formatted_total := ''$26.98''\<rparr>)). field item ''key'' \<noteq> JStr ''V9:none''"
    by (simp add: line_V1_def line_single_def)
  from unknown_key_is_noop [OF s k, of plain_host] show ?thesis
    by (simp add: cart_world_def initial_world_def)
qed

section \<open>One mutation in flight per trigger\<close>

subsection \<open>What resuming a frame touches\<close>

lemma resume_frame_pending:
  "pending (snd (resume_frame h fr res w)) = pending w"
  by (cases fr)
     (auto simp: loadInitialCart_resume_def addToCart_resume_def addToCart_try_def
        updateQuantity_resume_def removeItem_resume_def handleFormSubmit_resume_def
        handleQuickAdd_resume_def with_store_def Let_def
        split: sum.splits option.splits prod.splits)

lemma resume_frame_calls:
  "calls (snd (resume_frame h fr res w)) = calls w"
  by (cases fr)
     (auto simp: loadInitialCart_resume_def addToCart_resume_def addToCart_try_def
        updateQuantity_resume_def removeItem_resume_def handleFormSubmit_resume_def
        handleQuickAdd_resume_def with_store_def Let_def
        split: sum.splits option.splits prod.splits)

lemma resume_frame_processing:
  "processing (snd (resume_frame h fr res w)) el =
     (if mentions el [fr] then Some ''false'' else processing w el)"
  by (cases fr)
     (auto simp: loadInitialCart_resume_def addToCart_resume_def addToCart_try_def
        updateQuantity_resume_def removeItem_resume_def handleFormSubmit_resume_def
        handleQuickAdd_resume_def with_store_def mentions_def Let_def
        split: sum.splits option.splits prod.splits)

lemma resume_stack_pending:
  "pending (snd (resume_stack h stack res w)) = pending w"
proof (induction stack arbitrary: res w)
  case Nil
  show ?case by simp
next
  case (Cons fr frs)
  obtain res' w' where step: "resume_frame h fr res w = (res', w')" by (cases "resume_frame h fr res w")
  have "pending w' = pending w" using resume_frame_pending [of h fr res w] step by simp
  then show ?case using Cons.IH [of res' w'] step by simp
qed

lemma resume_stack_calls:
  "calls (snd (resume_stack h stack res w)) = calls w"
proof (induction stack arbitrary: res w)
  case Nil
  show ?case by simp
next
  case (Cons fr frs)
  obtain res' w' where step: "resume_frame h fr res w = (res', w')" by (cases "resume_frame h fr res w")
  have "calls w' = calls w" using resume_frame_calls [of h fr res w] step by simp
  then show ?case using Cons.IH [of res' w'] step by simp
qed

lemma mentions_Cons: "mentions el (fr # frs) = (mentions el [fr] \<or> mentions el frs)"
  by (auto simp: mentions_def)

lemma resume_stack_processing:
  "processing (snd (resume_stack h stack res w)) el =
     (if mentions el stack then Some ''false'' else processing w el)"
proof (induction stack arbitrary: res w)
  case Nil
  show ?case by (simp add: mentions_def)
next
  case (Cons fr frs)
  obtain res' w' where step: "resume_frame h fr res w = (res', w')" by (cases "resume_frame h fr res w")
  have "processing w' el = (if mentions el [fr] then Some ''false'' else processing w el)"
    using resume_frame_processing [of h fr res w el] step by simp
  then show ?case using Cons.IH [of res' w'] step by (simp add: mentions_Cons [of el fr frs])
qed

subsection \<open>Settling a call\<close>

lemma filter_without_nth:
  assumes "i < length xs"
  shows "length (filter P (take i xs @ drop (Suc i) xs)) =
         length (filter P xs) - (if P (xs ! i) then 1 else 0)"
proof -
  have "xs = take i xs @ xs ! i # drop (Suc i) xs" using assms by (rule id_take_nth_drop)
  then have "length (filter P xs) = length (filter P (take i xs @ xs ! i # drop (Suc i) xs))"
    by simp
  then show ?thesis by simp
qed

lemma settle_pending:
  "i < length (pending w) \<Longrightarrow>
   pending (settle h i res w) = take i (pending w) @ drop (Suc i) (pending w)"
  by (simp add: settle_def resume_stack_pending)

lemma settle_processing:
  "i < length (pending w) \<Longrightarrow>
   processing (settle h i res w) el =
     (if mentions el (pending w ! i) then Some ''false'' else processing w el)"
  by (simp add: settle_def resume_stack_processing)

lemma settle_calls: "calls (settle h i res w) = calls w"
  by (simp add: settle_def resume_stack_calls)

lemma settle_in_flight:
  assumes "i < length (pending w)"
  shows "in_flight (settle h i res w) el =
     in_flight w el - (if mentions el (pending w ! i) then 1 else 0)"
  unfolding in_flight_def
  by (simp only: settle_pending [OF assms] filter_without_nth [OF assms])

lemma in_flight_pos:
  "i < length (pending w) \<Longrightarrow> mentions el (pending w ! i) \<Longrightarrow> 0 < in_flight w el"
  unfolding in_flight_def by (simp add: filter_empty_conv) (metis nth_mem)

lemma settle_flag_matches:
  assumes "flag_matches w el"
  shows "flag_matches (settle h i res w) el"
proof (cases "i < length (pending w)")
  case False
  then show ?thesis using assms by (simp add: settle_def)
next
  case True
  show ?thesis
  proof (cases "mentions el (pending w ! i)")
    case False
    then show ?thesis using assms True
      by (simp add: flag_matches_def settle_in_flight settle_processing)
  next
    case yes: True
    have "0 < in_flight w el" using True yes by (rule in_flight_pos)
    then have "in_flight w el = 1" using assms by (simp add: flag_matches_def split: if_splits)
    then show ?thesis using True yes
      by (simp add: flag_matches_def settle_in_flight settle_processing)
  qed
qed

subsection \<open>The handlers\<close>

lemma form_item_object: "form_item h f = Inr item \<Longrightarrow> \<exists>kvs. item = JObj kvs"
  by (auto simp: form_item_def Let_def split: option.splits if_splits)

lemma button_item_object: "button_item h b = Inr item \<Longrightarrow> \<exists>kvs. item = JObj kvs"
  by (auto simp: button_item_def Let_def split: option.splits if_splits)

lemma handleFormSubmit_busy:
  "processing w el = Some ''true'' \<Longrightarrow> handleFormSubmit h el f w = w"
  by (simp add: handleFormSubmit_def)

lemma handleQuickAdd_busy:
  "processing w el = Some ''true'' \<Longrightarrow> handleQuickAdd h el b w = w"
  by (simp add: handleQuickAdd_def)

lemma handleFormSubmit_dispatches:
  assumes "processing w el \<noteq> Some ''true''" and "form_item h f = Inr item"
  shows "calls (handleFormSubmit h el f w) = calls w @ [AddItem item]"
    and "pending (handleFormSubmit h el f w) = pending w @ [[AddToCartF True, HandleFormSubmitF el]]"
    and "processing (handleFormSubmit h el f w) = (processing w)(el \<mapsto> ''true'')"
  using assms form_item_object [OF assms(2)]
  by (auto simp: handleFormSubmit_def addToCart_def dispatch_def with_store_def Let_def)

lemma handleFormSubmit_throws:
  assumes "processing w el \<noteq> Some ''true''" and "form_item h f = Inl e"
  shows "calls (handleFormSubmit h el f w) = calls w"
    and "pending (handleFormSubmit h el f w) = pending w"
    and "processing (handleFormSubmit h el f w) = (processing w)(el \<mapsto> ''false'')"
  using assms
  by (auto simp: handleFormSubmit_def with_store_def Let_def)

lemma handleQuickAdd_dispatches:
  assumes "processing w el \<noteq> Some ''true''" and "button_item h b = Inr item"
  shows "calls (handleQuickAdd h el b w) = calls w @ [AddItem item]"
    and "pending (handleQuickAdd h el b w) = pending w @ [[AddToCartF True, HandleQuickAddF el]]"
    and "processing (handleQuickAdd h el b w) = (processing w)(el \<mapsto> ''true'')"
  using assms button_item_object [OF assms(2)]
  by (auto simp: handleQuickAdd_def addToCart_def dispatch_def with_store_def Let_def)

lemma handleQuickAdd_throws:
  assumes "processing w el \<noteq> Some ''true''" and "button_item h b = Inl e"
  shows "calls (handleQuickAdd h el b w) = calls w"
    and "pending (handleQuickAdd h el b w) = pending w"
    and "processing (handleQuickAdd h el b w) = (processing w)(el \<mapsto> ''false'')"
  using assms
  by (auto simp: handleQuickAdd_def with_store_def Let_def)

lemma in_flight_append:
  "pending w' = pending w @ [stack] \<Longrightarrow>
   in_flight w' el = in_flight w el + (if mentions el stack then 1 else 0)"
  by (simp add: in_flight_def)

lemma in_flight_same: "pending w' = pending w \<Longrightarrow> in_flight w' el = in_flight w el"
  by (simp add: in_flight_def)

lemma handleFormSubmit_flag_matches:
  assumes "flag_matches w el"
  shows "flag_matches (handleFormSubmit h t f w) el"
proof (cases "processing w t = Some ''true''")
  case True
  then show ?thesis using assms by (simp add: handleFormSubmit_busy)
next
  case False
  show ?thesis
  proof (cases "form_item h f")
    case (Inl e)
    show ?thesis
      using assms False
      by (simp add: flag_matches_def handleFormSubmit_throws [OF False Inl]
          in_flight_same [OF handleFormSubmit_throws(2) [OF False Inl]])
  next
    case (Inr item)
    show ?thesis
      using assms False
      by (simp add: flag_matches_def handleFormSubmit_dispatches [OF False Inr]
          in_flight_append [OF handleFormSubmit_dispatches(2) [OF False Inr]] mentions_def)
  qed
qed

lemma handleQuickAdd_flag_matches:
  assumes "flag_matches w el"
  shows "flag_matches (handleQuickAdd h t b w) el"
proof (cases "processing w t = Some ''true''")
  case True
  then show ?thesis using assms by (simp add: handleQuickAdd_busy)
next
  case False
  show ?thesis
  proof (cases "button_item h b")
    case (Inl e)
    show ?thesis
      using assms False
      by (simp add: flag_matches_def handleQuickAdd_throws [OF False Inl]
          in_flight_same [OF handleQuickAdd_throws(2) [OF False Inl]])
  next
    case (Inr item)
    show ?thesis
      using assms False
      by (simp add: flag_matches_def handleQuickAdd_dispatches [OF False Inr]
          in_flight_append [OF handleQuickAdd_dispatches(2) [OF False Inr]] mentions_def)
  qed
qed

subsection \<open>The other events\<close>

lemma updateQuantity_flag_matches:
  "flag_matches w el \<Longrightarrow> flag_matches (updateQuantity key q [] w) el"
  by (simp add: flag_matches_def in_flight_def updateQuantity_def dispatch_def with_store_def
      mentions_def)

lemma loadInitialCart_flag_matches:
  "flag_matches w el \<Longrightarrow> flag_matches (loadInitialCart [] w) el"
  by (simp add: flag_matches_def in_flight_def loadInitialCart_def dispatch_def mentions_def)

lemma removeItem_flag_matches:
  "flag_matches w el \<Longrightarrow> flag_matches (removeItem key [] w) el"
  by (simp add: flag_matches_def in_flight_def removeItem_def dispatch_def with_store_def
      mentions_def)

lemma incrementQuantity_flag_matches:
  "flag_matches w el \<Longrightarrow> flag_matches (snd (incrementQuantity h key w)) el"
  by (auto simp: incrementQuantity_def updateQuantity_flag_matches split: option.splits sum.splits)

lemma decrementQuantity_flag_matches:
  "flag_matches w el \<Longrightarrow> flag_matches (snd (decrementQuantity h key w)) el"
  by (auto simp: decrementQuantity_def updateQuantity_flag_matches split: option.splits sum.splits)

lemma fire_flag_matches: "flag_matches w el \<Longrightarrow> flag_matches (fire h ev w) el"
  by (cases ev)
     (simp_all add: loadInitialCart_flag_matches handleFormSubmit_flag_matches
        handleQuickAdd_flag_matches
        incrementQuantity_flag_matches decrementQuantity_flag_matches removeItem_flag_matches
        settle_flag_matches)

lemma run_flag_matches: "flag_matches w el \<Longrightarrow> flag_matches (run h evs w) el"
  by (induction evs arbitrary: w) (simp_all add: fire_flag_matches)

lemma initial_flag_matches: "flag_matches (initial_world st0) el"
  by (simp add: flag_matches_def in_flight_def initial_world_def)

lemma reachable_flag_matches: "flag_matches (run h evs (initial_world st0)) el"
  by (rule run_flag_matches) (rule initial_flag_matches)

text \<open>
  C1. In every state the page reaches from its start, by any sequence of cart loads,
  submits, quick-add clicks, quantity changes, removals and settlings, and for every
  element:
  at most one gateway call is in flight for the element; while one is, a submit or a
  quick-add on the element returns the state unchanged (no call, no error, nothing
  queued); when none is, a submit or quick-add with a variant id records exactly one
  \<^verbatim>\<open>addItem\<close> call, and a second one fired before it settles changes nothing; one without
  a variant id throws before any call and leaves the element free; and when the call in
  flight settles, with any result, the element is free again, marked \<^verbatim>\<open>false\<close>, and
  its next submit or quick-add records a call.
\<close>

theorem one_call_per_trigger:
  assumes "w = run h evs (initial_world st0)"
  shows "in_flight w el \<le> 1
       \<and> (in_flight w el = 1 \<longrightarrow>
            handleFormSubmit h el f w = w \<and> handleQuickAdd h el b w = w)
       \<and> (in_flight w el = 0 \<longrightarrow> form_item h f = Inr item \<longrightarrow>
            calls (handleFormSubmit h el f w) = calls w @ [AddItem item]
          \<and> in_flight (handleFormSubmit h el f w) el = 1
          \<and> handleFormSubmit h el f' (handleFormSubmit h el f w) = handleFormSubmit h el f w
          \<and> handleQuickAdd h el b' (handleFormSubmit h el f w) = handleFormSubmit h el f w)
       \<and> (in_flight w el = 0 \<longrightarrow> button_item h b = Inr item \<longrightarrow>
            calls (handleQuickAdd h el b w) = calls w @ [AddItem item]
          \<and> in_flight (handleQuickAdd h el b w) el = 1
          \<and> handleQuickAdd h el b' (handleQuickAdd h el b w) = handleQuickAdd h el b w
          \<and> handleFormSubmit h el f' (handleQuickAdd h el b w) = handleQuickAdd h el b w)
       \<and> (in_flight w el = 0 \<longrightarrow> form_item h f = Inl e \<longrightarrow>
            calls (handleFormSubmit h el f w) = calls w
          \<and> in_flight (handleFormSubmit h el f w) el = 0
          \<and> processing (handleFormSubmit h el f w) el = Some ''false'')
       \<and> (in_flight w el = 0 \<longrightarrow> button_item h b = Inl e \<longrightarrow>
            calls (handleQuickAdd h el b w) = calls w
          \<and> in_flight (handleQuickAdd h el b w) el = 0
          \<and> processing (handleQuickAdd h el b w) el = Some ''false'')
       \<and> (i < length (pending w) \<longrightarrow> mentions el (pending w ! i) \<longrightarrow>
            in_flight (settle h i res w) el = 0
          \<and> processing (settle h i res w) el = Some ''false''
          \<and> calls (settle h i res w) = calls w
          \<and> (form_item h f = Inr item \<longrightarrow>
                calls (handleFormSubmit h el f (settle h i res w)) = calls w @ [AddItem item])
          \<and> (button_item h b = Inr item \<longrightarrow>
                calls (handleQuickAdd h el b (settle h i res w)) = calls w @ [AddItem item]))"
proof -
  have inv: "flag_matches w el"
    unfolding assms by (rule reachable_flag_matches)
  have at_most: "in_flight w el \<le> 1"
    using inv by (cases "processing w el = Some ''true''") (simp_all add: flag_matches_def)
  have busy: "processing w el = Some ''true''" if "in_flight w el = 1"
    using inv that by (cases "processing w el = Some ''true''") (simp_all add: flag_matches_def)
  have idle: "processing w el \<noteq> Some ''true''" if "in_flight w el = 0"
    using inv that by (cases "processing w el = Some ''true''") (simp_all add: flag_matches_def)
  have dropped: "handleFormSubmit h el f w = w \<and> handleQuickAdd h el b w = w"
    if "in_flight w el = 1"
    using busy [OF that] by (simp add: handleFormSubmit_busy handleQuickAdd_busy)
  have form_once:
    "calls (handleFormSubmit h el f w) = calls w @ [AddItem item]
     \<and> in_flight (handleFormSubmit h el f w) el = 1
     \<and> handleFormSubmit h el f' (handleFormSubmit h el f w) = handleFormSubmit h el f w
     \<and> handleQuickAdd h el b' (handleFormSubmit h el f w) = handleFormSubmit h el f w"
    if free: "in_flight w el = 0" and ok: "form_item h f = Inr item"
  proof -
    note d = handleFormSubmit_dispatches [OF idle [OF free] ok]
    have flag: "processing (handleFormSubmit h el f w) el = Some ''true''" by (simp add: d(3))
    have "in_flight (handleFormSubmit h el f w) el = 1"
      using free by (simp add: in_flight_append [OF d(2)] mentions_def)
    then show ?thesis
      using d(1) flag by (simp add: handleFormSubmit_busy handleQuickAdd_busy)
  qed
  have button_once:
    "calls (handleQuickAdd h el b w) = calls w @ [AddItem item]
     \<and> in_flight (handleQuickAdd h el b w) el = 1
     \<and> handleQuickAdd h el b' (handleQuickAdd h el b w) = handleQuickAdd h el b w
     \<and> handleFormSubmit h el f' (handleQuickAdd h el b w) = handleQuickAdd h el b w"
    if free: "in_flight w el = 0" and ok: "button_item h b = Inr item"
  proof -
    note d = handleQuickAdd_dispatches [OF idle [OF free] ok]
    have flag: "processing (handleQuickAdd h el b w) el = Some ''true''" by (simp add: d(3))
    have "in_flight (handleQuickAdd h el b w) el = 1"
      using free by (simp add: in_flight_append [OF d(2)] mentions_def)
    then show ?thesis
      using d(1) flag by (simp add: handleFormSubmit_busy handleQuickAdd_busy)
  qed
  have form_thrown:
    "calls (handleFormSubmit h el f w) = calls w
     \<and> in_flight (handleFormSubmit h el f w) el = 0
     \<and> processing (handleFormSubmit h el f w) el = Some ''false''"
    if free: "in_flight w el = 0" and thrown: "form_item h f = Inl e"
    using free handleFormSubmit_throws [OF idle [OF free] thrown]
    by (simp add: in_flight_def)
  have button_thrown:
    "calls (handleQuickAdd h el b w) = calls w
     \<and> in_flight (handleQuickAdd h el b w) el = 0
     \<and> processing (handleQuickAdd h el b w) el = Some ''false''"
    if free: "in_flight w el = 0" and thrown: "button_item h b = Inl e"
    using free handleQuickAdd_throws [OF idle [OF free] thrown]
    by (simp add: in_flight_def)
  have settled:
    "in_flight (settle h i res w) el = 0
     \<and> processing (settle h i res w) el = Some ''false''
     \<and> calls (settle h i res w) = calls w
     \<and> (form_item h f = Inr item \<longrightarrow>
           calls (handleFormSubmit h el f (settle h i res w)) = calls w @ [AddItem item])
     \<and> (button_item h b = Inr item \<longrightarrow>
           calls (handleQuickAdd h el b (settle h i res w)) = calls w @ [AddItem item])"
    if i: "i < length (pending w)" and mine: "mentions el (pending w ! i)"
  proof -
    have "0 < in_flight w el" using i mine by (rule in_flight_pos)
    with at_most have one: "in_flight w el = 1" by simp
    have zero: "in_flight (settle h i res w) el = 0"
      using one mine by (simp add: settle_in_flight [OF i])
    have flag: "processing (settle h i res w) el = Some ''false''"
      using mine by (simp add: settle_processing [OF i])
    then have again: "processing (settle h i res w) el \<noteq> Some ''true''" by simp
    show ?thesis
      using zero flag
      by (simp add: settle_calls handleFormSubmit_dispatches(1) [OF again]
          handleQuickAdd_dispatches(1) [OF again])
  qed
  show ?thesis
    using at_most dropped form_once button_once form_thrown button_thrown settled by blast
qed

lemma form_V1_item:
  "form_item plain_host form_V1 = Inr (item_V1)"
  by (simp add: form_item_def form_V1_def plain_host_def falsy_str_def or_default_def decimal_def
      item_V1_def)

theorem one_call_per_trigger_witness:
  "in_flight submitted_world 7 = 1
   \<and> calls submitted_world = [AddItem (item_V1)]
   \<and> handleFormSubmit plain_host 7 form_V1 submitted_world = submitted_world
   \<and> handleQuickAdd plain_host 7 button_V1 submitted_world = submitted_world
   \<and> in_flight (settle plain_host 0 (Inl (Error ''Sold out'')) submitted_world) 7 = 0
   \<and> processing (settle plain_host 0 (Inl (Error ''Sold out'')) submitted_world) 7 = Some ''false''
   \<and> calls (handleFormSubmit plain_host 7 form_V1
              (settle plain_host 0 (Inl (Error ''Sold out'')) submitted_world))
       = [AddItem (item_V1),
          AddItem (item_V1)]"
proof -
  let ?w0 = "initial_world (Some initial_store)"
  have reach: "submitted_world = run plain_host [Submit 7 form_V1] ?w0"
    by (simp add: submitted_world_def)
  have w: "submitted_world = handleFormSubmit plain_host 7 form_V1 ?w0"
    by (simp add: submitted_world_def)
  have idle: "processing ?w0 7 \<noteq> Some ''true''" by (simp add: initial_world_def)
  note d = handleFormSubmit_dispatches [OF idle form_V1_item]
  have c: "calls submitted_world = [AddItem (item_V1)]"
    unfolding w by (simp add: d(1)) (simp add: initial_world_def)
  have p: "pending submitted_world = [[AddToCartF True, HandleFormSubmitF 7]]"
    unfolding w by (simp add: d(2)) (simp add: initial_world_def)
  have one: "in_flight submitted_world 7 = 1" by (simp add: in_flight_def p mentions_def)
  have i: "0 < length (pending submitted_world)" by (simp add: p)
  have mine: "mentions 7 (pending submitted_world ! 0)" by (simp add: p mentions_def)
  from one_call_per_trigger [OF reach, where el = 7 and f = form_V1 and b = button_V1
      and i = 0 and res = "Inl (Error ''Sold out'')"
      and item = "item_V1"]
  show ?thesis using one i mine c form_V1_item by simp
qed

end
